theory Spec2Isabelle
  imports Complex_Main "HOL-Library.AList" "HOL-Library.Log_Nat" "HOL-Library.Word"
begin

text \<open>
  The three serverless handlers of the repository, each as a function from the request
  and what it reads (the store, the clock, the configuration, the answers of the
  external services) to the response and what it did: the calls it sent to the store,
  to the billing gateway and to the completion API.
\<close>

section \<open>The relational store\<close>

text \<open>
  The handlers reach the database through the supabase client only:
  \<^verbatim>\<open>supabase.from(t).update(patch).eq(col, v)\<close>, \<^verbatim>\<open>supabase.from(t).upsert(row)\<close> and
  \<^verbatim>\<open>supabase.from(t).select('*').eq(..)...single()\<close>. A row is a JSON object, kept here
  as an association list from column names to values; a table is a list of rows.
  Awaiting a query resolves to \<^verbatim>\<open>{data, error}\<close> and does not throw; the store is
  taken to be available, so every update and upsert is applied.
\<close>

datatype val =
    S string          \<comment> \<open>a string\<close>
  | B bool            \<comment> \<open>a boolean\<close>
  | N int             \<comment> \<open>a whole number\<close>
  | ISO int           \<comment> \<open>the string \<^verbatim>\<open>toISOString()\<close> renders for a time value in ms\<close>
  | Obj "(string \<times> val) list"   \<comment> \<open>a nested JSON object\<close>

type_synonym row = "(string \<times> val) list"

datatype table =
  creator_subscriptions | customer_subscriptions | creator_connect_accounts | user_gpts

type_synonym store = "table \<Rightarrow> row list"

text \<open>One call that writes: the table, the columns sent, and for an update its
  \<^verbatim>\<open>.eq(col, v)\<close> filter.\<close>

datatype store_op =
    Update table row "string \<times> val"
  | Upsert table row

definition matches :: "string \<times> val \<Rightarrow> row \<Rightarrow> bool" where
  "matches f r = (map_of r (fst f) = Some (snd f))"

text \<open>An update overwrites the columns of the patch and keeps the others.\<close>

definition patch_row :: "row \<Rightarrow> row \<Rightarrow> row" where
  "patch_row p r = foldl (\<lambda>acc kv. AList.update (fst kv) (snd kv) acc) r p"

definition update_rows :: "row \<Rightarrow> string \<times> val \<Rightarrow> row list \<Rightarrow> row list" where
  "update_rows p f rows = map (\<lambda>r. if matches f r then patch_row p r else r) rows"

text \<open>
  An upsert without \<^verbatim>\<open>onConflict\<close> resolves on the table's primary key. The schema is
  not part of the repository, so the key columns of each table are a parameter
  \<open>pk\<close>. A row that carries no value for a key column (a generated key) is inserted.
\<close>

definition key_of :: "string list \<Rightarrow> row \<Rightarrow> val option list" where
  "key_of ks r = map (map_of r) ks"

definition upsert_rows :: "string list \<Rightarrow> row \<Rightarrow> row list \<Rightarrow> row list" where
  "upsert_rows ks new rows =
     (if ks \<noteq> [] \<and> list_all (\<lambda>k. map_of new k \<noteq> None) ks
         \<and> list_ex (\<lambda>r. key_of ks r = key_of ks new) rows
      then map (\<lambda>r. if key_of ks r = key_of ks new then patch_row new r else r) rows
      else rows @ [new])"

fun apply_op :: "(table \<Rightarrow> string list) \<Rightarrow> store \<Rightarrow> store_op \<Rightarrow> store" where
  "apply_op pk s (Update t p f) = s(t := update_rows p f (s t))"
| "apply_op pk s (Upsert t r) = s(t := upsert_rows (pk t) r (s t))"

definition run_ops :: "(table \<Rightarrow> string list) \<Rightarrow> store \<Rightarrow> store_op list \<Rightarrow> store" where
  "run_ops pk s ops = foldl (apply_op pk) s ops"

text \<open>\<^verbatim>\<open>.single()\<close>: the row when exactly one row matches the filters, otherwise
  \<^verbatim>\<open>data: null\<close> and an error.\<close>

definition select_eq :: "store \<Rightarrow> table \<Rightarrow> (string \<times> val) list \<Rightarrow> row list" where
  "select_eq s t fs = filter (\<lambda>r. list_all (\<lambda>f. matches f r) fs) (s t)"

fun single :: "row list \<Rightarrow> row option \<times> string option" where
  "single [r] = (Some r, None)"
| "single rows = (None, Some ''JSON object requested, multiple (or no) rows returned'')"

text \<open>\<^verbatim>\<open>JSON.stringify\<close> leaves out a property whose value is \<^verbatim>\<open>undefined\<close>.\<close>

fun columns :: "(string \<times> val option) list \<Rightarrow> row" where
  "columns [] = []"
| "columns ((k, None) # kvs) = columns kvs"
| "columns ((k, Some v) # kvs) = (k, v) # columns kvs"

section \<open>HTTP responses and exceptions\<close>

datatype body =
    Json "(string \<times> val) list"     \<comment> \<open>\<^verbatim>\<open>res.json({...})\<close>\<close>
  | Send string                      \<comment> \<open>\<^verbatim>\<open>res.send(text)\<close>\<close>
  | End                              \<comment> \<open>\<^verbatim>\<open>res.end()\<close>\<close>

type_synonym response = "nat \<times> body"

datatype exn =
    TypeError string
  | RangeError string
  | Error string

fun message :: "exn \<Rightarrow> string" where
  "message (TypeError m) = m"
| "message (RangeError m) = m"
| "message (Error m) = m"

section \<open>api/stripe-webhooks.js\<close>

text \<open>
  The object of a webhook event, by event type. A field is \<open>None\<close> when the object
  does not have it (\<^verbatim>\<open>undefined\<close>). Unix times are whole seconds. An event of any
  type that the \<^verbatim>\<open>switch\<close> has no case for is \<open>Unhandled\<close>, with its type.
\<close>

type_synonym metadata = "(string \<times> string) list"

record session =
  session_id :: string
  session_metadata :: "metadata option"
  session_customer :: string
  session_subscription :: string

record subscription =
  subscription_id :: string
  subscription_customer :: string
  subscription_status :: string
  current_period_start :: "int option"
  current_period_end :: "int option"
  subscription_metadata :: "metadata option"

record invoice =
  invoice_subscription :: string

record account =
  account_id :: string
  charges_enabled :: bool
  payouts_enabled :: bool
  details_submitted :: bool

datatype event =
    Checkout_session_completed session
  | Customer_subscription_created subscription
  | Customer_subscription_updated subscription
  | Customer_subscription_deleted subscription
  | Invoice_payment_failed invoice
  | Invoice_payment_succeeded invoice
  | Account_updated account
  | Unhandled string

fun event_type :: "event \<Rightarrow> string" where
  "event_type (Checkout_session_completed _) = ''checkout.session.completed''"
| "event_type (Customer_subscription_created _) = ''customer.subscription.created''"
| "event_type (Customer_subscription_updated _) = ''customer.subscription.updated''"
| "event_type (Customer_subscription_deleted _) = ''customer.subscription.deleted''"
| "event_type (Invoice_payment_failed _) = ''invoice.payment_failed''"
| "event_type (Invoice_payment_succeeded _) = ''invoice.payment_succeeded''"
| "event_type (Account_updated _) = ''account.updated''"
| "event_type (Unhandled t) = t"

text \<open>
  \<^verbatim>\<open>new Date(seconds * 1000)\<close>: the time value in ms, or an invalid date (\<open>None\<close>) when
  the field is missing or the value is outside \<open>\<plusminus>8.64e15\<close> ms.
  \<^verbatim>\<open>toISOString()\<close> throws a RangeError on an invalid date.
\<close>

definition new_Date :: "int option \<Rightarrow> int option" where
  "new_Date secs =
     (case secs of
        None \<Rightarrow> None
      | Some n \<Rightarrow> if \<bar>n * 1000\<bar> \<le> 8640000000000000 then Some (n * 1000) else None)"

definition toISOString :: "int option \<Rightarrow> exn + val" where
  "toISOString d = (case d of None \<Rightarrow> Inl (RangeError ''Invalid time value'') | Some t \<Rightarrow> Inr (ISO t))"

text \<open>What a handler did: the store calls it issued, in order, and whether it threw.\<close>

type_synonym effect = "store_op list \<times> (exn + unit)"

definition handleCheckoutCompleted :: "session \<Rightarrow> effect" where
  "handleCheckoutCompleted session =
     (case session_metadata session of
        None \<Rightarrow> ([], Inl (TypeError ''Cannot read properties of undefined (reading 'type')''))
      | Some metadata \<Rightarrow>
          if map_of metadata ''type'' = Some ''creator_subscription'' then
            ([Upsert creator_subscriptions (columns
                [(''user_id'', map_option S (map_of metadata ''userId'')),
                 (''stripe_customer_id'', Some (S (session_customer session))),
                 (''stripe_subscription_id'', Some (S (session_subscription session))),
                 (''status'', Some (S ''active''))])], Inr ())
          else if map_of metadata ''type'' = Some ''customer_subscription'' then
            ([Upsert customer_subscriptions (columns
                [(''customer_id'', map_option S (map_of metadata ''userId'')),
                 (''gpt_id'', map_option S (map_of metadata ''gptId'')),
                 (''creator_id'', map_option S (map_of metadata ''creatorId'')),
                 (''stripe_customer_id'', Some (S (session_customer session))),
                 (''stripe_subscription_id'', Some (S (session_subscription session))),
                 (''status'', Some (S ''active''))])], Inr ())
          else ([], Inr ()))"

text \<open>The columns of the update of \<^verbatim>\<open>handleSubscriptionCreated\<close>, evaluated before the call.\<close>

definition created_fields :: "subscription \<Rightarrow> exn + row" where
  "created_fields subscription =
     (case toISOString (new_Date (current_period_start subscription)) of
        Inl e \<Rightarrow> Inl e
      | Inr period_start \<Rightarrow>
     (case toISOString (new_Date (current_period_end subscription)) of
        Inl e \<Rightarrow> Inl e
      | Inr period_end \<Rightarrow>
          Inr [(''status'', S (subscription_status subscription)),
               (''current_period_start'', period_start),
               (''current_period_end'', period_end)]))"

text \<open>\<^verbatim>\<open>metadata && metadata.type === 'creator_subscription'\<close>\<close>

definition creator_tagged :: "subscription \<Rightarrow> bool" where
  "creator_tagged subscription =
     (case subscription_metadata subscription of
        None \<Rightarrow> False
      | Some metadata \<Rightarrow> map_of metadata ''type'' = Some ''creator_subscription'')"

definition handleSubscriptionCreated :: "subscription \<Rightarrow> effect" where
  "handleSubscriptionCreated subscription =
     (if creator_tagged subscription then
        (case created_fields subscription of
           Inl e \<Rightarrow> ([], Inl e)
         | Inr cols \<Rightarrow>
             ([Update creator_subscriptions cols
                 (''stripe_subscription_id'', S (subscription_id subscription))], Inr ()))
      else
        (case created_fields subscription of
           Inl e \<Rightarrow> ([], Inl e)
         | Inr cols \<Rightarrow>
             ([Update customer_subscriptions cols
                 (''stripe_subscription_id'', S (subscription_id subscription))], Inr ())))"

text \<open>The columns of one update of \<^verbatim>\<open>handleSubscriptionUpdated\<close>, evaluated before the call.\<close>

definition updated_fields :: "int \<Rightarrow> subscription \<Rightarrow> exn + row" where
  "updated_fields now subscription =
     (case toISOString (new_Date (current_period_start subscription)) of
        Inl e \<Rightarrow> Inl e
      | Inr period_start \<Rightarrow>
     (case toISOString (new_Date (current_period_end subscription)) of
        Inl e \<Rightarrow> Inl e
      | Inr period_end \<Rightarrow>
          Inr [(''status'', S (subscription_status subscription)),
               (''current_period_start'', period_start),
               (''current_period_end'', period_end),
               (''updated_at'', ISO now)]))"

definition handleSubscriptionUpdated :: "int \<Rightarrow> subscription \<Rightarrow> effect" where
  "handleSubscriptionUpdated now subscription =
     (case updated_fields now subscription of
        Inl e \<Rightarrow> ([], Inl e)
      | Inr creator_fields \<Rightarrow>
     (case updated_fields now subscription of
        Inl e \<Rightarrow>
          ([Update creator_subscriptions creator_fields
              (''stripe_subscription_id'', S (subscription_id subscription))], Inl e)
      | Inr customer_fields \<Rightarrow>
          ([Update creator_subscriptions creator_fields
              (''stripe_subscription_id'', S (subscription_id subscription)),
            Update customer_subscriptions customer_fields
              (''stripe_subscription_id'', S (subscription_id subscription))], Inr ())))"

definition handleSubscriptionDeleted :: "int \<Rightarrow> subscription \<Rightarrow> effect" where
  "handleSubscriptionDeleted now subscription =
     ([Update creator_subscriptions [(''status'', S ''canceled''), (''updated_at'', ISO now)]
         (''stripe_subscription_id'', S (subscription_id subscription)),
       Update customer_subscriptions [(''status'', S ''canceled''), (''updated_at'', ISO now)]
         (''stripe_subscription_id'', S (subscription_id subscription))], Inr ())"

definition handlePaymentFailed :: "int \<Rightarrow> invoice \<Rightarrow> effect" where
  "handlePaymentFailed now invoice =
     ([Update creator_subscriptions [(''status'', S ''past_due''), (''updated_at'', ISO now)]
         (''stripe_subscription_id'', S (invoice_subscription invoice)),
       Update customer_subscriptions [(''status'', S ''past_due''), (''updated_at'', ISO now)]
         (''stripe_subscription_id'', S (invoice_subscription invoice))], Inr ())"

definition handlePaymentSucceeded :: "int \<Rightarrow> invoice \<Rightarrow> effect" where
  "handlePaymentSucceeded now invoice =
     ([Update creator_subscriptions [(''status'', S ''active''), (''updated_at'', ISO now)]
         (''stripe_subscription_id'', S (invoice_subscription invoice)),
       Update customer_subscriptions [(''status'', S ''active''), (''updated_at'', ISO now)]
         (''stripe_subscription_id'', S (invoice_subscription invoice))], Inr ())"

definition handleConnectAccountUpdated :: "int \<Rightarrow> account \<Rightarrow> effect" where
  "handleConnectAccountUpdated now account =
     ([Update creator_connect_accounts
         [(''charges_enabled'', B (charges_enabled account)),
          (''payouts_enabled'', B (payouts_enabled account)),
          (''onboarding_complete'', B (details_submitted account)),
          (''updated_at'', ISO now)]
         (''stripe_account_id'', S (account_id account))], Inr ())"

text \<open>The \<^verbatim>\<open>switch (event.type)\<close> of the handler.\<close>

fun dispatch :: "int \<Rightarrow> event \<Rightarrow> effect" where
  "dispatch now (Checkout_session_completed session) = handleCheckoutCompleted session"
| "dispatch now (Customer_subscription_created sub) = handleSubscriptionCreated sub"
| "dispatch now (Customer_subscription_updated sub) = handleSubscriptionUpdated now sub"
| "dispatch now (Customer_subscription_deleted sub) = handleSubscriptionDeleted now sub"
| "dispatch now (Invoice_payment_failed invoice) = handlePaymentFailed now invoice"
| "dispatch now (Invoice_payment_succeeded invoice) = handlePaymentSucceeded now invoice"
| "dispatch now (Account_updated account) = handleConnectAccountUpdated now account"
| "dispatch now (Unhandled t) = ([], Inr ())"

text \<open>
  The request as the handler reads it: the method, the \<^verbatim>\<open>stripe-signature\<close> header and
  the body as \<^verbatim>\<open>JSON.stringify\<close> renders it. \<^verbatim>\<open>stripe.webhooks.constructEvent\<close> belongs
  to the Stripe library: it returns the event, or throws with a message. It is a
  parameter, with the signing secret and the primary keys of the tables; \<open>now\<close> is
  the clock reading of the request.
\<close>

record webhook_request =
  http_method :: string
  stripe_signature :: "string option"
  request_body :: string

record webhook_env =
  constructEvent :: "string \<Rightarrow> string option \<Rightarrow> string option \<Rightarrow> string + event"
  STRIPE_WEBHOOK_SECRET :: "string option"
  primary_key :: "table \<Rightarrow> string list"
  now :: int

definition webhooks_handler :: "webhook_env \<Rightarrow> store \<Rightarrow> webhook_request \<Rightarrow> store \<times> response" where
  "webhooks_handler env s req =
     (if http_method req \<noteq> ''POST'' then (s, (405, Json [(''error'', S ''Method not allowed'')]))
      else
        case constructEvent env (request_body req) (stripe_signature req) (STRIPE_WEBHOOK_SECRET env) of
          Inl err \<Rightarrow> (s, (400, Send (''Webhook Error: '' @ err)))
        | Inr event \<Rightarrow>
            (case dispatch (now env) event of
               (ops, Inr _) \<Rightarrow> (run_ops (primary_key env) s ops, (200, Json [(''received'', B True)]))
             | (ops, Inl error) \<Rightarrow>
                 (run_ops (primary_key env) s ops, (500, Json [(''error'', S ''Webhook processing failed'')]))))"

text \<open>The status a call writes, if it writes one.\<close>

fun status_written :: "store_op \<Rightarrow> val option" where
  "status_written (Update t p f) = map_of p ''status''"
| "status_written (Upsert t r) = map_of r ''status''"

text \<open>The status an event carries in its object.\<close>

fun carried_status :: "event \<Rightarrow> string option" where
  "carried_status (Customer_subscription_created sub) = Some (subscription_status sub)"
| "carried_status (Customer_subscription_updated sub) = Some (subscription_status sub)"
| "carried_status _ = None"

section \<open>JavaScript numbers\<close>

text \<open>
  A finite Number is a binary64 value, kept here as the rational it denotes. An
  arithmetic operation, and the reading of a decimal literal, give the exact result
  rounded to the nearest value with a 53-bit significand, ties to even. The exponent is
  not bounded in this model (no overflow to Infinity, no subnormal numbers): the
  amounts of this program are far from both ends.
\<close>

definition pow2 :: "int \<Rightarrow> rat" where
  "pow2 e = (if 0 \<le> e then 2 ^ nat e else 1 / 2 ^ nat (- e))"

text \<open>\<open>ilog2 x\<close> is the exponent of the binade of a positive \<open>x\<close>:
  \<open>pow2 (ilog2 x) \<le> x < pow2 (ilog2 x + 1)\<close>.\<close>

definition ilog2 :: "rat \<Rightarrow> int" where
  "ilog2 x =
     (let d = bitlen (fst (quotient_of x)) - bitlen (snd (quotient_of x))
      in if pow2 d \<le> x then d else d - 1)"

definition round_half_even :: "rat \<Rightarrow> int" where
  "round_half_even y =
     (if y - of_int \<lfloor>y\<rfloor> < 1 / 2 then \<lfloor>y\<rfloor>
      else if 1 / 2 < y - of_int \<lfloor>y\<rfloor> then \<lfloor>y\<rfloor> + 1
      else if even \<lfloor>y\<rfloor> then \<lfloor>y\<rfloor> else \<lfloor>y\<rfloor> + 1)"

definition to_double :: "rat \<Rightarrow> rat" where
  "to_double x =
     (if x = 0 then 0
      else of_int (round_half_even (x / pow2 (ilog2 \<bar>x\<bar> - 52))) * pow2 (ilog2 \<bar>x\<bar> - 52))"

text \<open>\<^verbatim>\<open>a * b\<close> on Numbers.\<close>

definition multiply :: "rat \<Rightarrow> rat \<Rightarrow> rat" where
  "multiply a b = to_double (a * b)"

text \<open>\<^verbatim>\<open>Math.round\<close>: the nearest integer, a tie going up.\<close>

definition Math_round :: "rat \<Rightarrow> int" where
  "Math_round x = \<lfloor>x + 1 / 2\<rfloor>"

section \<open>api/stripe-config.js\<close>

text \<open>
  The billing gateway is reached through the Stripe client. Each call either returns
  or throws; what it returns is a parameter of the model. The second argument of a
  call, where there is one, is the \<^verbatim>\<open>stripeAccount\<close> option.
\<close>

record checkout_params =
  customer :: string
  payment_method_types :: "string list"
  currency :: string
  product_name :: string
  product_name_value :: "val option"      \<comment> \<open>the value interpolated at the end of the name\<close>
  product_description :: "val option"
  unit_amount :: int
  recurring_interval :: string
  quantity :: nat
  mode :: string
  success_url :: string
  cancel_url :: string
  application_fee_percent :: "nat option"
  subscription_data_metadata :: "metadata option"
  params_metadata :: metadata

datatype gateway_call =
    Customers_list string nat                          \<comment> \<open>email, limit\<close>
  | Customers_create string metadata "string option"   \<comment> \<open>email, metadata, stripeAccount\<close>
  | Checkout_sessions_create checkout_params "string option"
  | Accounts_create string metadata                    \<comment> \<open>an express account: email, metadata\<close>
  | AccountLinks_create string string string           \<comment> \<open>account, refresh_url, return_url\<close>
  | Subscriptions_retrieve string "string option"
  | Accounts_retrieve "string option"                  \<comment> \<open>the account id, if the row has one\<close>

record gateway_subscription =
  retrieved_status :: string
  retrieved_current_period_end :: int
  cancel_at_period_end :: bool

record gateway =
  customers_list :: "string \<Rightarrow> exn + string list"                  \<comment> \<open>the ids of \<^verbatim>\<open>customers.data\<close>\<close>
  customers_create :: "string \<Rightarrow> metadata \<Rightarrow> string option \<Rightarrow> exn + string"   \<comment> \<open>\<^verbatim>\<open>customer.id\<close>\<close>
  checkout_sessions_create :: "checkout_params \<Rightarrow> string option \<Rightarrow> exn + string \<times> string"
                                                                    \<comment> \<open>\<^verbatim>\<open>session.id\<close>, \<^verbatim>\<open>session.url\<close>\<close>
  accounts_create :: "string \<Rightarrow> metadata \<Rightarrow> exn + string"           \<comment> \<open>\<^verbatim>\<open>account.id\<close>\<close>
  accountLinks_create :: "string \<Rightarrow> string \<Rightarrow> string \<Rightarrow> exn + string"   \<comment> \<open>\<^verbatim>\<open>accountLink.url\<close>\<close>
  subscriptions_retrieve :: "string \<Rightarrow> string option \<Rightarrow> exn + gateway_subscription"
  accounts_retrieve :: "string option \<Rightarrow> exn + account"

text \<open>What an operation did: the gateway calls and the store calls it issued, in order,
  and the response it sent or the exception it threw.\<close>

type_synonym outcome = "gateway_call list \<times> store_op list \<times> (exn + response)"

text \<open>The request body \<^verbatim>\<open>{action, ...data}\<close> and the \<^verbatim>\<open>origin\<close> header.
  \<open>monthlyPrice\<close> is the decimal number written in the body.\<close>

record config_request =
  config_method :: string
  origin :: "string option"
  action :: string
  userId :: string
  email :: string
  gptId :: string
  creatorId :: string
  monthlyPrice :: rat
  subscriptionId :: string
  stripeAccountId :: "string option"

text \<open>A missing header interpolates as \<^verbatim>\<open>undefined\<close>.\<close>

definition interpolate :: "string option \<Rightarrow> string" where
  "interpolate x = (case x of None \<Rightarrow> ''undefined'' | Some s \<Rightarrow> s)"

text \<open>Whether a column value is truthy; a missing column is \<^verbatim>\<open>undefined\<close>.\<close>

fun truthy :: "val option \<Rightarrow> bool" where
  "truthy None = False"
| "truthy (Some (B b)) = b"
| "truthy (Some (S s)) = (s \<noteq> [])"
| "truthy (Some (N n)) = (n \<noteq> 0)"
| "truthy (Some (ISO t)) = True"
| "truthy (Some (Obj kvs)) = True"

text \<open>A string column of a row read as an id; \<open>None\<close> when the column is missing or
  holds something else.\<close>

fun string_of :: "val option \<Rightarrow> string option" where
  "string_of (Some (S s)) = Some s"
| "string_of _ = None"

text \<open>Lines 67 to 77: the first customer listed for the email, or a new one.\<close>

definition find_or_create_customer ::
    "gateway \<Rightarrow> config_request \<Rightarrow> gateway_call list \<times> (exn + string)" where
  "find_or_create_customer stripe req =
     (case customers_list stripe (email req) of
        Inl e \<Rightarrow> ([Customers_list (email req) 1], Inl e)
      | Inr customers \<Rightarrow>
          (case customers of
             c # _ \<Rightarrow> ([Customers_list (email req) 1], Inr c)
           | [] \<Rightarrow>
               ([Customers_list (email req) 1,
                 Customers_create (email req) [(''userId'', userId req), (''type'', ''creator'')] None],
                customers_create stripe (email req)
                  [(''userId'', userId req), (''type'', ''creator'')] None)))"

text \<open>Lines 80 to 99: the argument of \<^verbatim>\<open>stripe.checkout.sessions.create\<close>.\<close>

definition creator_checkout_params :: "config_request \<Rightarrow> string \<Rightarrow> checkout_params" where
  "creator_checkout_params req customer_id =
     \<lparr>customer = customer_id,
      payment_method_types = [''card''],
      currency = ''usd'',
      product_name = ''Creator Subscription'',
      product_name_value = None,
      product_description =
        Some (S ''Monthly subscription to monetize your GPTs on the marketplace''),
      unit_amount = 1900,
      recurring_interval = ''month'',
      quantity = 1,
      mode = ''subscription'',
      success_url = interpolate (origin req) @ ''?creator_subscription=success'',
      cancel_url = interpolate (origin req) @ ''?creator_subscription=cancelled'',
      application_fee_percent = None,
      subscription_data_metadata = None,
      params_metadata = [(''userId'', userId req), (''type'', ''creator_subscription'')]\<rparr>"

definition createCreatorSubscription :: "gateway \<Rightarrow> store \<Rightarrow> config_request \<Rightarrow> outcome" where
  "createCreatorSubscription stripe s req =
     (case fst (single (select_eq s creator_subscriptions
               [(''user_id'', S (userId req)), (''status'', S ''active'')])) of
        Some existingSub \<Rightarrow>
          ([], [], Inr (400, Json [(''error'', S ''Already has active creator subscription'')]))
      | None \<Rightarrow>
     (case find_or_create_customer stripe req of
        (calls, Inl e) \<Rightarrow> (calls, [], Inl e)
      | (calls, Inr customer_id) \<Rightarrow>
     (case checkout_sessions_create stripe (creator_checkout_params req customer_id) None of
        Inl e \<Rightarrow>
          (calls @ [Checkout_sessions_create (creator_checkout_params req customer_id) None], [], Inl e)
      | Inr (sid, surl) \<Rightarrow>
          (calls @ [Checkout_sessions_create (creator_checkout_params req customer_id) None], [],
           Inr (200, Json [(''sessionId'', S sid), (''customerId'', S customer_id),
                           (''url'', S surl)])))))"

text \<open>Line 217: \<^verbatim>\<open>Math.round(monthlyPrice * 100 * 0.30)\<close>, on the Number read from
  the body.\<close>

definition applicationFeeAmount :: "rat \<Rightarrow> int" where
  "applicationFeeAmount price = Math_round (multiply (multiply (to_double price) 100) (to_double (3 / 10)))"

text \<open>Line 230: \<^verbatim>\<open>Math.round(monthlyPrice * 100)\<close>.\<close>

definition unit_amount_of :: "rat \<Rightarrow> int" where
  "unit_amount_of price = Math_round (multiply (to_double price) 100)"

text \<open>Lines 220 to 243: the argument of \<^verbatim>\<open>stripe.checkout.sessions.create\<close>. The
  product name is \<^verbatim>\<open>GPT Access: \<close> followed by \<^verbatim>\<open>gpt_data.name\<close>, kept as a value.\<close>

definition customer_checkout_params :: "config_request \<Rightarrow> string \<Rightarrow> val \<Rightarrow> checkout_params" where
  "customer_checkout_params req customer_id gpt_data =
     \<lparr>customer = customer_id,
      payment_method_types = [''card''],
      currency = ''usd'',
      product_name = ''GPT Access: '',
      product_name_value = (case gpt_data of Obj kvs \<Rightarrow> map_of kvs ''name'' | _ \<Rightarrow> None),
      product_description = (case gpt_data of Obj kvs \<Rightarrow> map_of kvs ''description'' | _ \<Rightarrow> None),
      unit_amount = unit_amount_of (monthlyPrice req),
      recurring_interval = ''month'',
      quantity = 1,
      mode = ''subscription'',
      success_url = interpolate (origin req) @ ''?subscription=success&gpt='' @ gptId req,
      cancel_url = interpolate (origin req) @ ''?subscription=cancelled'',
      application_fee_percent = Some 30,
      subscription_data_metadata =
        Some [(''userId'', userId req), (''gptId'', gptId req), (''creatorId'', creatorId req),
              (''type'', ''customer_subscription'')],
      params_metadata =
        [(''userId'', userId req), (''gptId'', gptId req), (''creatorId'', creatorId req),
         (''type'', ''customer_subscription'')]\<rparr>"

definition createCustomerSubscription :: "gateway \<Rightarrow> store \<Rightarrow> config_request \<Rightarrow> outcome" where
  "createCustomerSubscription stripe s req =
     (case single (select_eq s creator_connect_accounts [(''user_id'', S (creatorId req))]) of
        (connectAccount, connectError) \<Rightarrow>
     if connectError \<noteq> None
        \<or> \<not> truthy (case connectAccount of None \<Rightarrow> None | Some a \<Rightarrow> map_of a ''onboarding_complete'')
     then ([], [], Inr (400, Json [(''error'', S ''Creator payment setup not complete'')]))
     else
     (case fst (single (select_eq s customer_subscriptions
               [(''customer_id'', S (userId req)), (''gpt_id'', S (gptId req)),
                (''status'', S ''active'')])) of
        Some existingSub \<Rightarrow> ([], [], Inr (400, Json [(''error'', S ''Already subscribed to this GPT'')]))
      | None \<Rightarrow>
     (case single (select_eq s user_gpts [(''id'', S (gptId req))]) of
        (gptData, Some gptError) \<Rightarrow> ([], [], Inr (400, Json [(''error'', S ''GPT not found'')]))
      | (gptData, None) \<Rightarrow>
     (let stripeAccount = string_of (case connectAccount of None \<Rightarrow> None
                                      | Some a \<Rightarrow> map_of a ''stripe_account_id'');
          create = Customers_create (email req)
                     [(''userId'', userId req), (''gptId'', gptId req), (''creatorId'', creatorId req)]
                     stripeAccount
      in case customers_create stripe (email req)
                [(''userId'', userId req), (''gptId'', gptId req), (''creatorId'', creatorId req)]
                stripeAccount of
           Inl e \<Rightarrow> ([create], [], Inl e)
         | Inr customer_id \<Rightarrow>
     (let fee = applicationFeeAmount (monthlyPrice req)
      in case (case gptData of None \<Rightarrow> None | Some g \<Rightarrow> map_of g ''gpt_data'') of
           None \<Rightarrow>
             ([create], [], Inl (TypeError ''Cannot read properties of undefined (reading 'name')''))
         | Some gpt_data \<Rightarrow>
     (case checkout_sessions_create stripe
             (customer_checkout_params req customer_id gpt_data) stripeAccount of
        Inl e \<Rightarrow>
          ([create, Checkout_sessions_create (customer_checkout_params req customer_id gpt_data)
                      stripeAccount], [], Inl e)
      | Inr (sid, surl) \<Rightarrow>
          ([create, Checkout_sessions_create (customer_checkout_params req customer_id gpt_data)
                      stripeAccount], [],
           Inr (200, Json [(''sessionId'', S sid), (''customerId'', S customer_id),
                           (''url'', S surl)]))))))))"

text \<open>The column \<^verbatim>\<open>stripe_account_id\<close> holds a string, or is missing.\<close>

definition createConnectAccount :: "gateway \<Rightarrow> store \<Rightarrow> config_request \<Rightarrow> outcome" where
  "createConnectAccount stripe s req =
     (let existingAccount = fst (single (select_eq s creator_connect_accounts
                                   [(''user_id'', S (userId req))]));
          existing_id = string_of (case existingAccount of None \<Rightarrow> None
                                    | Some a \<Rightarrow> map_of a ''stripe_account_id'');
          link = (\<lambda>calls ops accountId.
            case accountLinks_create stripe accountId
                   (interpolate (origin req) @ ''/creator-dashboard?setup=refresh'')
                   (interpolate (origin req) @ ''?connect=success'') of
              Inl e \<Rightarrow>
                (calls @ [AccountLinks_create accountId
                            (interpolate (origin req) @ ''/creator-dashboard?setup=refresh'')
                            (interpolate (origin req) @ ''?connect=success'')], ops, Inl e)
            | Inr url \<Rightarrow>
                (calls @ [AccountLinks_create accountId
                            (interpolate (origin req) @ ''/creator-dashboard?setup=refresh'')
                            (interpolate (origin req) @ ''?connect=success'')], ops,
                 Inr (200, Json [(''accountId'', S accountId), (''onboardingUrl'', S url)])));
          create =
            (case accounts_create stripe (email req) [(''userId'', userId req)] of
               Inl e \<Rightarrow> ([Accounts_create (email req) [(''userId'', userId req)]], [], Inl e)
             | Inr accountId \<Rightarrow>
                 link [Accounts_create (email req) [(''userId'', userId req)]]
                   [Upsert creator_connect_accounts
                      [(''user_id'', S (userId req)),
                       (''stripe_account_id'', S accountId),
                       (''onboarding_complete'', B False),
                       (''charges_enabled'', B False),
                       (''payouts_enabled'', B False)]]
                   accountId)
      in case existing_id of
           None \<Rightarrow> create
         | Some accountId \<Rightarrow> if accountId = [] then create else link [] [] accountId)"

definition verifySubscription :: "gateway \<Rightarrow> store \<Rightarrow> config_request \<Rightarrow> outcome" where
  "verifySubscription stripe s req =
     (case subscriptions_retrieve stripe (subscriptionId req) (stripeAccountId req) of
        Inl e \<Rightarrow> ([Subscriptions_retrieve (subscriptionId req) (stripeAccountId req)], [], Inl e)
      | Inr sub \<Rightarrow>
          ([Subscriptions_retrieve (subscriptionId req) (stripeAccountId req)], [],
           Inr (200, Json [(''status'', S (retrieved_status sub)),
                           (''currentPeriodEnd'', N (retrieved_current_period_end sub)),
                           (''cancelAtPeriodEnd'', B (cancel_at_period_end sub))])))"

text \<open>
  \<^verbatim>\<open>connectAccount.stripe_account_id\<close> is passed to \<^verbatim>\<open>stripe.accounts.retrieve\<close> as it
  is: for a row without the column the call is made with \<^verbatim>\<open>undefined\<close> (the client then
  retrieves the account of the key), the row is updated all the same, and \<^verbatim>\<open>accountId\<close>
  is left out of the answer.
\<close>

definition getConnectStatus :: "gateway \<Rightarrow> store \<Rightarrow> config_request \<Rightarrow> outcome" where
  "getConnectStatus stripe s req =
     (case single (select_eq s creator_connect_accounts [(''user_id'', S (userId req))]) of
        (connectAccount, Some error) \<Rightarrow> ([], [], Inr (200, Json [(''exists'', B False)]))
      | (None, None) \<Rightarrow> ([], [], Inr (200, Json [(''exists'', B False)]))
      | (Some connectAccount, None) \<Rightarrow>
          (case accounts_retrieve stripe (string_of (map_of connectAccount ''stripe_account_id'')) of
             Inl e \<Rightarrow>
               ([Accounts_retrieve (string_of (map_of connectAccount ''stripe_account_id''))], [], Inl e)
           | Inr account \<Rightarrow>
               ([Accounts_retrieve (string_of (map_of connectAccount ''stripe_account_id''))],
                [Update creator_connect_accounts
                   [(''onboarding_complete'', B (details_submitted account)),
                    (''charges_enabled'', B (charges_enabled account)),
                    (''payouts_enabled'', B (payouts_enabled account))]
                   (''user_id'', S (userId req))],
                Inr (200, Json (columns
                   [(''exists'', Some (B True)),
                    (''accountId'',
                     map_option S (string_of (map_of connectAccount ''stripe_account_id''))),
                    (''onboardingComplete'', Some (B (details_submitted account))),
                    (''chargesEnabled'', Some (B (charges_enabled account))),
                    (''payoutsEnabled'', Some (B (payouts_enabled account)))])))))"

text \<open>The handler: the \<^verbatim>\<open>switch (action)\<close>, and the \<^verbatim>\<open>catch\<close> that turns an exception
  into a 500 with its message. It returns the store, the gateway calls and the response.\<close>

definition stripe_config_handler ::
    "gateway \<Rightarrow> (table \<Rightarrow> string list) \<Rightarrow> store \<Rightarrow> config_request
       \<Rightarrow> store \<times> gateway_call list \<times> response" where
  "stripe_config_handler stripe pk s req =
     (if config_method req = ''OPTIONS'' then (s, [], (200, End))
      else if config_method req \<noteq> ''POST'' then
        (s, [], (405, Json [(''error'', S ''Method not allowed'')]))
      else
        case (if action req = ''create_creator_subscription'' then createCreatorSubscription stripe s req
              else if action req = ''create_connect_account'' then createConnectAccount stripe s req
              else if action req = ''create_customer_subscription'' then createCustomerSubscription stripe s req
              else if action req = ''verify_subscription'' then verifySubscription stripe s req
              else if action req = ''get_connect_status'' then getConnectStatus stripe s req
              else ([], [], Inr (400, Json [(''error'', S ''Invalid action'')]))) of
          (calls, ops, Inr res) \<Rightarrow> (run_ops pk s ops, calls, res)
        | (calls, ops, Inl error) \<Rightarrow>
            (run_ops pk s ops, calls, (500, Json [(''error'', S (message error))])))"

text \<open>The rows the duplicate check of \<^verbatim>\<open>createCreatorSubscription\<close> selects: the active
  rows of the user.\<close>

definition active_rows :: "store \<Rightarrow> string \<Rightarrow> row list" where
  "active_rows s user =
     select_eq s creator_subscriptions [(''user_id'', S user), (''status'', S ''active'')]"

section \<open>api/chat.js\<close>

text \<open>
  The strings of the request body are JavaScript strings: sequences of UTF-16 code
  units. \<open>utf16\<close> gives the code units of an ASCII literal.
\<close>

type_synonym js_string = "16 word list"

definition utf16 :: "string \<Rightarrow> js_string" where
  "utf16 s = map of_char s"

text \<open>The code units that \<^verbatim>\<open>String.prototype.trim\<close> strips: WhiteSpace and
  LineTerminator of the language definition.\<close>

definition white_space :: "16 word \<Rightarrow> bool" where
  "white_space c =
     (c \<in> {0x0009, 0x000A, 0x000B, 0x000C, 0x000D, 0x0020, 0x00A0, 0x1680,
            0x2000, 0x2001, 0x2002, 0x2003, 0x2004, 0x2005, 0x2006, 0x2007, 0x2008, 0x2009, 0x200A,
            0x2028, 0x2029, 0x202F, 0x205F, 0x3000, 0xFEFF})"

definition trim :: "js_string \<Rightarrow> js_string" where
  "trim s = rev (dropWhile white_space (rev (dropWhile white_space s)))"

record turn =
  role :: js_string
  content :: js_string

text \<open>The \<^verbatim>\<open>messages\<close> field of the body: missing, \<^verbatim>\<open>null\<close>, a value that is not an
  array (falsy as \<^verbatim>\<open>0\<close>, \<^verbatim>\<open>false\<close> and \<^verbatim>\<open>""\<close>, or truthy as an object, a number or a
  text), or an array of turns.\<close>

datatype messages_field =
    Undefined
  | Null
  | Not_array bool       \<comment> \<open>the flag: whether the value is truthy\<close>
  | Array "turn list"

fun falsy :: "messages_field \<Rightarrow> bool" where
  "falsy Undefined = True"
| "falsy Null = True"
| "falsy (Not_array t) = (\<not> t)"
| "falsy (Array ms) = False"

fun isArray :: "messages_field \<Rightarrow> bool" where
  "isArray (Array ms) = True"
| "isArray _ = False"

fun elements :: "messages_field \<Rightarrow> turn list" where
  "elements (Array ms) = ms"
| "elements _ = []"

text \<open>The body \<^verbatim>\<open>{messages, instructions, context, model}\<close>; \<open>instructions\<close>, \<open>context\<close>
  and \<open>model\<close> are strings when present.\<close>

record chat_request =
  chat_method :: string
  chat_origin :: "string option"
  messages :: messages_field
  instructions :: "js_string option"
  context_text :: "js_string option"
  model :: "js_string option"

text \<open>The request sent to the completion API.\<close>

record completion_request =
  authorization :: string
  http_referer :: "string option"
  x_title :: "string option"
  request_model :: js_string
  request_messages :: "turn list"
  max_tokens :: nat
  temperature :: rat
  stream :: "bool option"

text \<open>
  What comes back: \<^verbatim>\<open>fetch\<close> or \<^verbatim>\<open>response.json()\<close> throws, or there is a response with
  its \<^verbatim>\<open>ok\<close> flag, its status and its data. Of the data the handlers read
  \<^verbatim>\<open>error?.message\<close>, \<^verbatim>\<open>choices\<close> (each choice with its message, each message with its
  content), \<^verbatim>\<open>model\<close> and \<^verbatim>\<open>usage\<close>.
\<close>

record completion_data =
  data_error_message :: "js_string option"
  data_choices :: "js_string option option list option"
  data_model :: "js_string option"
  data_usage :: "val option"

datatype fetched =
    Rejected js_string
  | Fetched bool nat completion_data

datatype chat_body =
    No_body
  | Failure string "js_string option" "int option"      \<comment> \<open>\<^verbatim>\<open>{error, details, timestamp}\<close>\<close>
  | Completion "js_string option" "js_string option" "val option"
                                                        \<comment> \<open>\<^verbatim>\<open>{success: true, message, model, usage}\<close>\<close>

record chat_env =
  OPENROUTER_API_KEY :: "string option"
  fetch :: "completion_request \<Rightarrow> fetched"
  chat_now :: int

fun digits :: "nat \<Rightarrow> string" where
  "digits n =
     (if n < 10 then [char_of (48 + n)] else digits (n div 10) @ [char_of (48 + n mod 10)])"

declare digits.simps [simp del]

text \<open>Lines 43 to 47: the content of the system turn.\<close>

definition systemContent :: "js_string option \<Rightarrow> js_string option \<Rightarrow> js_string" where
  "systemContent instr ctx =
     (case instr of
        None \<Rightarrow> utf16 ''You are a helpful AI assistant.''
      | Some i \<Rightarrow> if i = [] then utf16 ''You are a helpful AI assistant.'' else i)
     @ (case ctx of
          None \<Rightarrow> []
        | Some c \<Rightarrow>
            if c \<noteq> [] \<and> trim c \<noteq> []
            then [0x0A, 0x0A] @ utf16 ''Relevant information from uploaded documents:'' @ [0x0A] @ c
            else [])"

definition chat_handler :: "chat_env \<Rightarrow> chat_request \<Rightarrow> completion_request list \<times> nat \<times> chat_body" where
  "chat_handler env req =
     (if chat_method req = ''OPTIONS'' then ([], 200, No_body)
      else if chat_method req \<noteq> ''POST'' then ([], 405, Failure ''Method not allowed'' None None)
      else
        case OPENROUTER_API_KEY env of
          None \<Rightarrow>
            ([], 500, Failure ''Server configuration error'' (Some (utf16 ''API key not configured'')) None)
        | Some apiKey \<Rightarrow>
            if apiKey = [] then
              ([], 500, Failure ''Server configuration error'' (Some (utf16 ''API key not configured'')) None)
            else if falsy (messages req) \<or> \<not> isArray (messages req) \<or> length (elements (messages req)) = 0
            then ([], 400, Failure ''Messages array is required and cannot be empty'' None None)
            else
              let openRouterMessages =
                    \<lparr>role = utf16 ''system'', content = systemContent (instructions req) (context_text req)\<rparr>
                      # elements (messages req);
                  call =
                    \<lparr>authorization = ''Bearer '' @ apiKey,
                     http_referer =
                       Some (case chat_origin req of
                               None \<Rightarrow> ''https://eringptbuilder.com''
                             | Some header \<Rightarrow> if header = [] then ''https://eringptbuilder.com'' else header),
                     x_title = Some ''ErinGPT Builder'',
                     request_model = (case model req of None \<Rightarrow> utf16 ''openai/gpt-4o-mini'' | Some m \<Rightarrow> m),
                     request_messages = openRouterMessages,
                     max_tokens = 1500,
                     temperature = 7 / 10,
                     stream = Some False\<rparr>
              in case fetch env call of
                   Rejected msg \<Rightarrow>
                     ([call], 500, Failure ''Failed to process chat request'' (Some msg) (Some (chat_now env)))
                 | Fetched ok code data \<Rightarrow>
                     if \<not> ok then
                       ([call], 500,
                        Failure ''Failed to process chat request''
                          (Some (case data_error_message data of
                                   None \<Rightarrow> utf16 (''API error: '' @ digits code)
                                 | Some m \<Rightarrow> if m = [] then utf16 (''API error: '' @ digits code) else m))
                          (Some (chat_now env)))
                     else
                       (case data_choices data of
                          Some (Some reply # _) \<Rightarrow>
                            ([call], 200, Completion reply (data_model data)
                                            (Some (case data_usage data of None \<Rightarrow> Obj [] | Some u \<Rightarrow> u)))
                        | _ \<Rightarrow>
                            ([call], 500,
                             Failure ''Failed to process chat request''
                               (Some (utf16 ''Invalid response structure from OpenRouter API''))
                               (Some (chat_now env)))))"

text \<open>
  The second handler of the repository (\<^verbatim>\<open>src/unnamed/part_001\<close>, headed
  \<^verbatim>\<open>api/chat.js - Vercel Serverless Function\<close>), with its key written into the code.
\<close>

definition systemContent_part_001 :: "js_string option \<Rightarrow> js_string option \<Rightarrow> js_string" where
  "systemContent_part_001 instr ctx =
     (case instr of
        None \<Rightarrow> utf16 ''You are a helpful assistant.''
      | Some i \<Rightarrow> if i = [] then utf16 ''You are a helpful assistant.'' else i)
     @ (case ctx of
          None \<Rightarrow> []
        | Some c \<Rightarrow>
            if c \<noteq> []
            then [0x0A, 0x0A] @ utf16 ''Relevant information from uploaded documents:'' @ [0x0A] @ c
            else [])"

definition chat_handler_part_001 ::
    "string \<Rightarrow> (completion_request \<Rightarrow> fetched) \<Rightarrow> chat_request
       \<Rightarrow> completion_request list \<times> nat \<times> chat_body" where
  "chat_handler_part_001 key fetch_api req =
     (if chat_method req \<noteq> ''POST'' then ([], 405, Failure ''Method not allowed'' None None)
      else if falsy (messages req) \<or> \<not> isArray (messages req)
      then ([], 400, Failure ''Messages array is required'' None None)
      else
        let openRouterMessages =
              \<lparr>role = utf16 ''system'',
               content = systemContent_part_001 (instructions req) (context_text req)\<rparr>
                # elements (messages req);
            call =
              \<lparr>authorization = ''Bearer '' @ key,
               http_referer = None,
               x_title = None,
               request_model = (case model req of None \<Rightarrow> utf16 ''openai/gpt-4o-mini'' | Some m \<Rightarrow> m),
               request_messages = openRouterMessages,
               max_tokens = 1000,
               temperature = 7 / 10,
               stream = None\<rparr>
        in case fetch_api call of
             Rejected msg \<Rightarrow> ([call], 500, Failure ''Failed to process request'' (Some msg) None)
           | Fetched ok code data \<Rightarrow>
               if \<not> ok then
                 ([call], 500,
                  Failure ''Failed to process request''
                    (Some (case data_error_message data of
                             None \<Rightarrow> utf16 ''OpenRouter API error''
                           | Some m \<Rightarrow> if m = [] then utf16 ''OpenRouter API error'' else m))
                    None)
               else
                 (case data_choices data of
                    None \<Rightarrow>
                      ([call], 500,
                       Failure ''Failed to process request''
                         (Some (utf16 ''Cannot read properties of undefined (reading '0')'')) None)
                  | Some choices \<Rightarrow>
                      ([call], 200,
                       Completion
                         (Some (case choices of
                                  Some (Some text) # _ \<Rightarrow>
                                    if text = [] then utf16 ''No response generated'' else text
                                | _ \<Rightarrow> utf16 ''No response generated''))
                         None (data_usage data))))"

section \<open>Example requests and stores\<close>

definition status_of :: "row \<Rightarrow> val option" where
  "status_of r = map_of r ''status''"

text \<open>A stand-in for the Stripe library's check: the payload decodes to \<open>ev\<close>, and the
  signature is good when it equals the configured secret.\<close>

definition example_constructEvent ::
    "event \<Rightarrow> string \<Rightarrow> string option \<Rightarrow> string option \<Rightarrow> string + event" where
  "example_constructEvent ev payload sig secret =
     (if sig \<noteq> None \<and> sig = secret then Inr ev
      else Inl ''No signatures found matching the expected signature for payload'')"

definition example_env :: "event \<Rightarrow> webhook_env" where
  "example_env ev =
     \<lparr>constructEvent = example_constructEvent ev,
      STRIPE_WEBHOOK_SECRET = Some ''whsec_1'',
      primary_key = (\<lambda>t. [''id'']),
      now = 1700000000000\<rparr>"

definition signed_request :: webhook_request where
  "signed_request = \<lparr>http_method = ''POST'', stripe_signature = Some ''whsec_1'', request_body = ''{}''\<rparr>"

definition forged_request :: webhook_request where
  "forged_request = \<lparr>http_method = ''POST'', stripe_signature = Some ''forged'', request_body = ''{}''\<rparr>"

definition example_store :: store where
  "example_store =
     (\<lambda>t. [])
       (creator_subscriptions :=
          [[(''user_id'', S ''u1''), (''stripe_subscription_id'', S ''sub_1''), (''status'', S ''active'')]],
        customer_subscriptions :=
          [[(''customer_id'', S ''u2''), (''gpt_id'', S ''g1''), (''stripe_subscription_id'', S ''sub_2''),
            (''status'', S ''active'')],
           [(''customer_id'', S ''u3''), (''gpt_id'', S ''g1''), (''stripe_subscription_id'', S ''sub_1''),
            (''status'', S ''past_due'')]])"

definition example_subscription :: "string \<Rightarrow> metadata option \<Rightarrow> subscription" where
  "example_subscription st md =
     \<lparr>subscription_id = ''sub_1'', subscription_customer = ''cus_1'', subscription_status = st,
      current_period_start = Some 1700000000, current_period_end = Some 1702592000,
      subscription_metadata = md\<rparr>"

definition example_session :: "metadata option \<Rightarrow> session" where
  "example_session md =
     \<lparr>session_id = ''cs_1'', session_metadata = md, session_customer = ''cus_1'',
      session_subscription = ''sub_9''\<rparr>"

text \<open>A gateway that answers every call: it knows no customer, and names what it creates.\<close>

definition example_gateway :: gateway where
  "example_gateway =
     \<lparr>customers_list = (\<lambda>email. Inr []),
      customers_create = (\<lambda>email md acct. Inr ''cus_new''),
      checkout_sessions_create = (\<lambda>params acct. Inr (''cs_new'', ''https://checkout.example/cs_new'')),
      accounts_create = (\<lambda>email md. Inr ''acct_new''),
      accountLinks_create = (\<lambda>acct refresh ret. Inr ''https://connect.example/link''),
      subscriptions_retrieve = (\<lambda>sub acct. Inl (Error ''No such subscription'')),
      accounts_retrieve = (\<lambda>acct. Inl (Error ''No such account''))\<rparr>"

definition example_request :: "string \<Rightarrow> string \<Rightarrow> config_request" where
  "example_request act user =
     \<lparr>config_method = ''POST'', origin = Some ''https://app.example'', action = act,
      userId = user, email = ''a@b.example'', gptId = ''g1'', creatorId = ''c1'',
      monthlyPrice = 2999 / 100, subscriptionId = ''sub_1'', stripeAccountId = None\<rparr>"

text \<open>A store in which user \<^verbatim>\<open>u1\<close> has two active creator subscriptions and user
  \<^verbatim>\<open>u4\<close> a canceled one.\<close>

definition duplicate_store :: store where
  "duplicate_store =
     (\<lambda>t. [])
       (creator_subscriptions :=
          [[(''user_id'', S ''u1''), (''stripe_subscription_id'', S ''sub_1''), (''status'', S ''active'')],
           [(''user_id'', S ''u1''), (''stripe_subscription_id'', S ''sub_7''), (''status'', S ''active'')],
           [(''user_id'', S ''u4''), (''stripe_subscription_id'', S ''sub_8''), (''status'', S ''canceled'')]])"

text \<open>A completion API that answers every request with one choice.\<close>

definition example_fetch :: "completion_request \<Rightarrow> fetched" where
  "example_fetch call =
     Fetched True 200
       \<lparr>data_error_message = None,
        data_choices = Some [Some (Some (utf16 ''Hello''))],
        data_model = Some (request_model call),
        data_usage = None\<rparr>"

definition example_chat_env :: chat_env where
  "example_chat_env = \<lparr>OPENROUTER_API_KEY = Some ''sk-or-1'', fetch = example_fetch, chat_now = 0\<rparr>"

definition example_chat_request :: "messages_field \<Rightarrow> js_string option \<Rightarrow> chat_request" where
  "example_chat_request ms ctx =
     \<lparr>chat_method = ''POST'', chat_origin = None, messages = ms, instructions = None,
      context_text = ctx, model = None\<rparr>"

definition example_turn :: turn where
  "example_turn = \<lparr>role = utf16 ''user'', content = utf16 ''Hi''\<rparr>"

text \<open>A store in which creator \<^verbatim>\<open>c1\<close> has finished onboarding and listing \<^verbatim>\<open>g1\<close>
  exists.\<close>

definition example_marketplace :: store where
  "example_marketplace =
     (\<lambda>t. [])
       (creator_connect_accounts :=
          [[(''user_id'', S ''c1''), (''stripe_account_id'', S ''acct_1''),
            (''onboarding_complete'', B True), (''charges_enabled'', B True),
            (''payouts_enabled'', B True)]],
        user_gpts :=
          [[(''id'', S ''g1''),
            (''gpt_data'', Obj [(''name'', S ''Tutor''), (''description'', S ''A patient tutor'')])]])"

section \<open>Properties of the number model\<close>

lemma pow2_powi: "pow2 e = 2 powi e"
  by (simp add: pow2_def power_int_def power_inverse [symmetric] inverse_eq_divide power_one_over)

lemma pow2_pos: "0 < pow2 e"
  by (simp add: pow2_powi)

lemma pow2_nat: "pow2 (int n) = 2 ^ n"
  by (simp add: pow2_def)

lemma pow2_diff: "pow2 (a - b) = pow2 a / pow2 b"
  by (simp add: pow2_powi power_int_diff)


lemma bitlen_rat_bounds:
  assumes "0 < (p::int)"
  shows "pow2 (bitlen p - 1) \<le> of_int p" and "of_int p < pow2 (bitlen p)"
proof -
  from assms have pos: "0 < bitlen p"
    by (metis bitlen_eq_zero_iff bitlen_nonneg less_le not_le)
  from bitlen_bounds [OF assms]
  have lo: "2 ^ nat (bitlen p - 1) \<le> p" and hi: "p < 2 ^ nat (bitlen p)"
    by simp_all
  from lo have "(of_int (2 ^ nat (bitlen p - 1)) :: rat) \<le> of_int p"
    by (simp only: of_int_le_iff)
  with pos show "pow2 (bitlen p - 1) \<le> of_int p"
    by (simp add: pow2_def)
  from hi have "(of_int p :: rat) < of_int (2 ^ nat (bitlen p))"
    by (simp only: of_int_less_iff)
  with pos show "of_int p < pow2 (bitlen p)"
    by (simp add: pow2_def)
qed

lemma ilog2_bounds:
  assumes "0 < x"
  shows "pow2 (ilog2 x) \<le> x" and "x < pow2 (ilog2 x + 1)"
proof -
  obtain p q where pq: "quotient_of x = (p, q)"
    by (cases "quotient_of x")
  then have q: "0 < q" and x: "x = of_int p / of_int q"
    by (simp_all add: quotient_of_denom_pos quotient_of_div)
  with assms have p: "0 < p"
    by (simp add: zero_less_divide_iff)
  define d where "d = bitlen p - bitlen q"
  have il: "ilog2 x = (if pow2 d \<le> x then d else d - 1)"
    by (simp add: ilog2_def pq d_def Let_def)
  have qr: "(0::rat) < of_int q"
    using q by simp
  have "x < pow2 (bitlen p) / pow2 (bitlen q - 1)"
  proof -
    have "x \<le> of_int p / pow2 (bitlen q - 1)"
      unfolding x using bitlen_rat_bounds(1) [OF q] p pow2_pos [of "bitlen q - 1"]
      by (intro divide_left_mono) (simp_all add: mult_pos_pos)
    also have "\<dots> < pow2 (bitlen p) / pow2 (bitlen q - 1)"
      using bitlen_rat_bounds(2) [OF p] pow2_pos [of "bitlen q - 1"]
      by (simp add: divide_strict_right_mono)
    finally show ?thesis .
  qed
  then have upper: "x < pow2 (d + 1)"
    by (simp add: d_def pow2_diff [symmetric] algebra_simps)
  have "pow2 (bitlen p - 1) / pow2 (bitlen q) < x"
  proof -
    have "pow2 (bitlen p - 1) / pow2 (bitlen q) \<le> of_int p / pow2 (bitlen q)"
      using bitlen_rat_bounds(1) [OF p] pow2_pos [of "bitlen q"]
      by (simp add: divide_right_mono)
    also have "\<dots> < of_int p / of_int q"
      using bitlen_rat_bounds(2) [OF q] p qr
      by (intro divide_strict_left_mono) (simp_all add: mult_pos_pos pow2_pos)
    finally show ?thesis by (simp add: x)
  qed
  then have lower: "pow2 (d - 1) < x"
    by (simp add: d_def pow2_diff [symmetric] algebra_simps)
  show "pow2 (ilog2 x) \<le> x"
    using lower by (simp add: il)
  show "x < pow2 (ilog2 x + 1)"
    using upper by (auto simp: il)
qed

lemma round_half_even_error: "\<bar>of_int (round_half_even y) - y\<bar> \<le> 1 / 2"
proof -
  have "0 \<le> y - of_int \<lfloor>y\<rfloor>" and "y - of_int \<lfloor>y\<rfloor> < 1"
    by linarith+
  then show ?thesis
    by (auto simp: round_half_even_def abs_le_iff)
qed

lemma to_double_error:
  "\<bar>to_double x - x\<bar> \<le> \<bar>x\<bar> / 2 ^ 53"
proof (cases "x = 0")
  case True
  then show ?thesis by (simp add: to_double_def)
next
  case False
  define e where "e = ilog2 \<bar>x\<bar> - 52"
  define m where "m = round_half_even (x / pow2 e)"
  have td: "to_double x = of_int m * pow2 e"
    using False by (simp add: to_double_def e_def m_def)
  have pe: "0 < pow2 e"
    by (rule pow2_pos)
  have "of_int m * pow2 e - x = (of_int m - x / pow2 e) * pow2 e"
    using pe by (simp add: field_simps)
  then have "\<bar>to_double x - x\<bar> = \<bar>of_int m - x / pow2 e\<bar> * pow2 e"
    using pe by (simp add: td abs_mult)
  also have "\<dots> \<le> 1 / 2 * pow2 e"
    using round_half_even_error [of "x / pow2 e"] pe
    by (intro mult_right_mono) (simp_all add: m_def)
  also have "pow2 e = pow2 (ilog2 \<bar>x\<bar>) / 2 ^ 52"
    using pow2_nat [of 52] by (simp add: e_def pow2_diff)
  also have "1 / 2 * (pow2 (ilog2 \<bar>x\<bar>) / 2 ^ 52) \<le> 1 / 2 * (\<bar>x\<bar> / 2 ^ 52)"
    using ilog2_bounds(1) [of "\<bar>x\<bar>"] False by (simp add: divide_right_mono)
  finally show ?thesis by simp
qed

lemma to_double_near:
  assumes "0 \<le> x"
  shows "x - x / 9007199254740992 \<le> to_double x" and "to_double x \<le> x + x / 9007199254740992"
proof -
  have "(2::rat) ^ 53 = 9007199254740992"
    by simp
  with to_double_error [of x] assms have "\<bar>to_double x - x\<bar> \<le> x / 9007199254740992"
    by simp
  then show "x - x / 9007199254740992 \<le> to_double x" and "to_double x \<le> x + x / 9007199254740992"
    unfolding abs_le_iff by linarith+
qed

lemma of_int_bounds:
  assumes "0 \<le> c" and "c \<le> 10 ^ 12"
  shows "(0::rat) \<le> of_int c" and "(of_int c :: rat) \<le> 1000000000000"
proof -
  show "(0::rat) \<le> of_int c"
    using assms(1) by simp
  have "(of_int c :: rat) \<le> of_int (10 ^ 12)"
    using assms(2) by (simp only: of_int_le_iff)
  then show "(of_int c :: rat) \<le> 1000000000000"
    by simp
qed

text \<open>The product \<open>price * 100\<close> for a price of \<open>c\<close> whole cents is close to \<open>c\<close>.\<close>

lemma cents_near:
  assumes "0 \<le> (x::rat)"
  shows "x * 100 - x / 10000000000000 \<le> multiply (to_double x) 100"
    and "multiply (to_double x) 100 \<le> x * 100 + x / 10000000000000"
proof -
  define price where "price = to_double x"
  define cents where "cents = to_double (price * 100)"
  from to_double_near [OF assms]
  have 1: "x - x / 9007199254740992 \<le> price" "price \<le> x + x / 9007199254740992"
    by (simp_all add: price_def)
  with assms have "0 \<le> price * 100"
    by linarith
  from to_double_near [OF this]
  have 2: "price * 100 - price * 100 / 9007199254740992 \<le> cents"
    "cents \<le> price * 100 + price * 100 / 9007199254740992"
    by (simp_all add: cents_def)
  from 1 2 assms have "x * 100 - x / 10000000000000 \<le> cents" and "cents \<le> x * 100 + x / 10000000000000"
    by linarith+
  then show "x * 100 - x / 10000000000000 \<le> multiply (to_double x) 100"
    and "multiply (to_double x) 100 \<le> x * 100 + x / 10000000000000"
    by (simp_all add: multiply_def cents_def price_def)
qed

lemma Math_round_eq:
  assumes "of_int n \<le> v + 1 / 2" and "v + 1 / 2 < of_int n + 1"
  shows "Math_round v = n"
  using assms by (simp add: Math_round_def floor_unique)

lemma unit_amount_cents:
  assumes "0 \<le> c" and "c \<le> 10 ^ 12"
  shows "unit_amount_of (of_int c / 100) = c"
proof -
  define x :: rat where "x = of_int c / 100"
  define cents where "cents = multiply (to_double x) 100"
  note c = of_int_bounds [OF assms]
  then have x: "0 \<le> x" "x * 100 = of_int c" "x \<le> 10000000000"
    by (simp_all add: x_def)
  from cents_near [OF x(1)]
  have "x * 100 - x / 10000000000000 \<le> cents" and "cents \<le> x * 100 + x / 10000000000000"
    by (simp_all add: cents_def)
  with x have "of_int c \<le> cents + 1 / 2" and "cents + 1 / 2 < of_int c + 1"
    by linarith+
  then have "Math_round cents = c"
    by (rule Math_round_eq)
  then show ?thesis
    by (simp add: unit_amount_of_def cents_def x_def)
qed

lemma double_three_tenths: "to_double (3 / 10) = 5404319552844595 / 18014398509481984"
  by code_simp

text \<open>The product \<open>price * 100 * 0.30\<close> is within \<open>1/1000\<close> of \<open>0.3 c\<close>.\<close>

lemma fee_near:
  assumes "0 \<le> c" and "c \<le> 10 ^ 12"
  shows "3 * of_int c / 10 - 1 / 1000
           \<le> multiply (multiply (to_double (of_int c / 100)) 100) (to_double (3 / 10))"
    and "multiply (multiply (to_double (of_int c / 100)) 100) (to_double (3 / 10))
           \<le> 3 * of_int c / 10 + 1 / 1000"
proof -
  define x :: rat where "x = of_int c / 100"
  define cents where "cents = multiply (to_double x) 100"
  define w where "w = cents * (5404319552844595 / 18014398509481984)"
  define v where "v = multiply cents (to_double (3 / 10))"
  have v: "v = to_double w"
    by (simp add: v_def w_def multiply_def double_three_tenths)
  note c = of_int_bounds [OF assms]
  then have x: "0 \<le> x" "x * 100 = of_int c" "x \<le> 10000000000"
    by (simp_all add: x_def)
  from cents_near [OF x(1)]
  have 1: "x * 100 - x / 10000000000000 \<le> cents" "cents \<le> x * 100 + x / 10000000000000"
    by (simp_all add: cents_def)
  with x have "0 \<le> cents"
    by linarith
  then have "0 \<le> w"
    by (simp add: w_def)
  from to_double_near [OF this]
  have 2: "w - w / 9007199254740992 \<le> v" "v \<le> w + w / 9007199254740992"
    by (simp_all add: v)
  have w: "w = cents * 5404319552844595 / 18014398509481984"
    by (simp add: w_def)
  from 1 2 x have "3 * (x * 100) / 10 - 1 / 1000 \<le> v" and "v \<le> 3 * (x * 100) / 10 + 1 / 1000"
    unfolding w by linarith+
  then show "3 * of_int c / 10 - 1 / 1000
           \<le> multiply (multiply (to_double (of_int c / 100)) 100) (to_double (3 / 10))"
    and "multiply (multiply (to_double (of_int c / 100)) 100) (to_double (3 / 10))
           \<le> 3 * of_int c / 10 + 1 / 1000"
    by (simp_all add: v_def cents_def x_def)
qed

lemma fee_cents:
  assumes "0 \<le> c" and "c \<le> 10 ^ 12" and "3 * c mod 10 \<noteq> 5"
  shows "applicationFeeAmount (of_int c / 100) = (3 * c + 5) div 10"
proof -
  define v where "v = multiply (multiply (to_double (of_int c / 100)) 100) (to_double (3 / 10))"
  define n where "n = (3 * c + 5) div 10"
  define r where "r = (3 * c + 5) mod 10"
  have "r \<noteq> 0"
    using assms(3) unfolding r_def by presburger
  moreover have "0 \<le> r" "r < 10"
    by (simp_all add: r_def)
  ultimately have r: "1 \<le> r" "r \<le> 9"
    by linarith+
  have "3 * c + 5 = 10 * n + r"
    by (simp add: n_def r_def)
  then have "(of_int (3 * c + 5) :: rat) = of_int (10 * n + r)"
    by (simp only:)
  then have eq: "3 * (of_int c :: rat) + 5 = 10 * of_int n + of_int r"
    by simp
  have "(of_int 1 :: rat) \<le> of_int r" "(of_int r :: rat) \<le> of_int 9"
    using r by (simp_all only: of_int_le_iff)
  then have rr: "(1::rat) \<le> of_int r" "(of_int r :: rat) \<le> 9"
    by simp_all
  from fee_near [OF assms(1,2)]
  have "3 * of_int c / 10 - 1 / 1000 \<le> v" and "v \<le> 3 * of_int c / 10 + 1 / 1000"
    by (simp_all add: v_def)
  with eq rr have "of_int n \<le> v + 1 / 2" and "v + 1 / 2 < of_int n + 1"
    by linarith+
  then have "Math_round v = n"
    by (rule Math_round_eq)
  then show ?thesis
    by (simp add: applicationFeeAmount_def v_def n_def)
qed


text \<open>Rounding the exact amounts of a price of \<open>c\<close> whole cents.\<close>

lemma Math_round_of_int: "Math_round (of_int c) = c"
  by (rule Math_round_eq) simp_all

lemma Math_round_cents: "Math_round (of_int c / 100 * 100) = c"
  by (simp add: Math_round_of_int)

lemma Math_round_fee: "Math_round (of_int c / 100 * 100 * (3 / 10)) = (3 * c + 5) div 10"
proof -
  have "(of_int c / 100 * 100 * (3 / 10) + 1 / 2 :: rat) = of_int (3 * c + 5) / of_int 10"
    by (simp add: field_simps)
  then show ?thesis
    unfolding Math_round_def by (simp only: floor_divide_of_int_eq)
qed

section \<open>Properties of the store operations\<close>

lemma run_ops_Nil: "run_ops pk s [] = s"
  by (simp add: run_ops_def)

lemma patch_row_keeps:
  "k \<notin> fst ` set p \<Longrightarrow> map_of (patch_row p r) k = map_of r k"
  unfolding patch_row_def
  by (induction p arbitrary: r) (auto simp: update_conv')

lemma matches_patch_row:
  "fst f \<notin> fst ` set p \<Longrightarrow> matches f (patch_row p r) = matches f r"
  by (simp add: matches_def patch_row_keeps)

lemma status_of_set_status:
  "status_of (patch_row [(''status'', v), (''updated_at'', w)] r) = Some v"
  by (simp add: status_of_def patch_row_def update_conv')

text \<open>After an update that sets the status, every row the filter matches has it.\<close>

lemma update_rows_status:
  assumes "r \<in> set (update_rows [(''status'', v), (''updated_at'', w)] (''stripe_subscription_id'', i) rows)"
    and "matches (''stripe_subscription_id'', i) r"
  shows "status_of r = Some v"
proof -
  let ?p = "[(''status'', v), (''updated_at'', w)]" and ?f = "(''stripe_subscription_id'', i)"
  from assms(1) obtain r0 where r0: "r0 \<in> set rows"
    and r: "r = (if matches ?f r0 then patch_row ?p r0 else r0)"
    by (auto simp: update_rows_def)
  show ?thesis
  proof (cases "matches ?f r0")
    case True
    with r show ?thesis by (simp add: status_of_set_status)
  next
    case False
    with r assms(2) show ?thesis by simp
  qed
qed

text \<open>Repeating such an update changes no status.\<close>

lemma update_rows_status_again:
  "map status_of (update_rows [(''status'', v), (''updated_at'', w')] (''stripe_subscription_id'', i)
      (update_rows [(''status'', v), (''updated_at'', w)] (''stripe_subscription_id'', i) rows))
   = map status_of (update_rows [(''status'', v), (''updated_at'', w)] (''stripe_subscription_id'', i) rows)"
proof -
  have keep: "\<And>r w. matches (''stripe_subscription_id'', i) (patch_row [(''status'', v), (''updated_at'', w)] r)
      = matches (''stripe_subscription_id'', i) r"
    by (rule matches_patch_row) simp
  show ?thesis
    by (simp add: update_rows_def keep status_of_set_status)
qed

section \<open>Properties of the webhook handler\<close>

lemma example_env_simps:
  "constructEvent (example_env ev) = example_constructEvent ev"
  "STRIPE_WEBHOOK_SECRET (example_env ev) = Some ''whsec_1''"
  "primary_key (example_env ev) t = [''id'']"
  "now (example_env ev) = 1700000000000"
  by (simp_all add: example_env_def)

lemma signed_request_simps:
  "http_method signed_request = ''POST''"
  "stripe_signature signed_request = Some ''whsec_1''"
  "request_body signed_request = ''{}''"
  by (simp_all add: signed_request_def)

lemma signed_request_event:
  "constructEvent (example_env ev) (request_body signed_request) (stripe_signature signed_request)
     (STRIPE_WEBHOOK_SECRET (example_env ev)) = Inr ev"
  by (simp add: example_env_simps signed_request_simps example_constructEvent_def)

lemma forged_request_rejected:
  "constructEvent (example_env ev) (request_body forged_request) (stripe_signature forged_request)
     (STRIPE_WEBHOOK_SECRET (example_env ev))
   = Inl ''No signatures found matching the expected signature for payload''"
  by (simp add: example_env_simps forged_request_def example_constructEvent_def)

text \<open>A request that is not a POST is answered 405 before the signature is looked at.\<close>

lemma webhooks_not_post:
  "http_method req \<noteq> ''POST'' \<Longrightarrow>
     webhooks_handler env s req = (s, (405, Json [(''error'', S ''Method not allowed'')]))"
  by (simp add: webhooks_handler_def)

text \<open>
  C7. A webhook request whose signature fails verification (\<^verbatim>\<open>constructEvent\<close> throws
  for its body, signature header and the configured secret) is answered with a client
  error, and the store after the request is the store before it: no row is changed.
  The answer is 400 with the message of the failure; a request that is not a POST is
  answered 405 before its signature is read.
\<close>

theorem webhooks_invalid_signature:
  assumes "constructEvent env (request_body req) (stripe_signature req) (STRIPE_WEBHOOK_SECRET env) = Inl err"
  shows "webhooks_handler env s req =
     (s, if http_method req = ''POST'' then (400, Send (''Webhook Error: '' @ err))
         else (405, Json [(''error'', S ''Method not allowed'')]))"
  using assms by (simp add: webhooks_handler_def)

theorem webhooks_invalid_signature_witness:
  "http_method forged_request = ''POST''
   \<and> webhooks_handler (example_env (Unhandled ''ping'')) example_store forged_request
       = (example_store,
          (400, Send ''Webhook Error: No signatures found matching the expected signature for payload''))"
proof -
  have post: "http_method forged_request = ''POST''"
    by (simp add: forged_request_def)
  from webhooks_invalid_signature [OF forged_request_rejected, of "Unhandled ''ping''" example_store] post
  show ?thesis by simp
qed

text \<open>A \<^verbatim>\<open>checkout.session.completed\<close> event whose session has a metadata object with a
  type tag that is neither \<^verbatim>\<open>creator_subscription\<close> nor \<^verbatim>\<open>customer_subscription\<close> (or
  with no type tag) changes no row of the store, and the handler answers 200 with
  \<^verbatim>\<open>{received: true}\<close>.\<close>

lemma checkout_other_type:
  assumes "http_method req = ''POST''"
    and "constructEvent env (request_body req) (stripe_signature req) (STRIPE_WEBHOOK_SECRET env)
           = Inr (Checkout_session_completed session)"
    and "session_metadata session = Some metadata"
    and "map_of metadata ''type'' \<noteq> Some ''creator_subscription''"
    and "map_of metadata ''type'' \<noteq> Some ''customer_subscription''"
  shows "webhooks_handler env s req = (s, (200, Json [(''received'', B True)]))"
  using assms by (simp add: webhooks_handler_def handleCheckoutCompleted_def run_ops_Nil)

lemma checkout_other_type_example:
  "webhooks_handler
     (example_env (Checkout_session_completed
        (example_session (Some [(''type'', ''gift_card''), (''userId'', ''u1'')]))))
     example_store signed_request
   = (example_store, (200, Json [(''received'', B True)]))"
proof -
  let ?md = "[(''type'', ''gift_card''), (''userId'', ''u1'')]"
  have md: "session_metadata (example_session (Some ?md)) = Some ?md"
    by (simp add: example_session_def)
  have a: "map_of ?md ''type'' \<noteq> Some ''creator_subscription''"
    and b: "map_of ?md ''type'' \<noteq> Some ''customer_subscription''"
    by simp_all
  from checkout_other_type [OF signed_request_simps(1) signed_request_event md a b, of example_store]
  show ?thesis by simp
qed

text \<open>Without a metadata object on the session, reading \<^verbatim>\<open>metadata.type\<close> throws: the
  answer is 500, and still no row is changed.\<close>

lemma checkout_without_metadata:
  assumes "http_method req = ''POST''"
    and "constructEvent env (request_body req) (stripe_signature req) (STRIPE_WEBHOOK_SECRET env)
           = Inr (Checkout_session_completed session)"
    and "session_metadata session = None"
  shows "webhooks_handler env s req = (s, (500, Json [(''error'', S ''Webhook processing failed'')]))"
  using assms by (simp add: webhooks_handler_def handleCheckoutCompleted_def run_ops_Nil)

text \<open>
  C9, where it fails. A \<^verbatim>\<open>checkout.session.completed\<close> event whose session has no
  metadata object has no type tag, so its tag is neither \<^verbatim>\<open>creator_subscription\<close> nor
  \<^verbatim>\<open>customer_subscription\<close>. \<^verbatim>\<open>handleCheckoutCompleted\<close> reads \<^verbatim>\<open>metadata.type\<close> without
  the \<^verbatim>\<open>metadata &&\<close> test that \<^verbatim>\<open>handleSubscriptionCreated\<close> makes: the read throws, no
  row is changed, and the answer is 500 \<^verbatim>\<open>Webhook processing failed\<close>, not 200.
\<close>

theorem checkout_no_metadata_answer:
  "session_metadata (example_session None) = None
   \<and> handleCheckoutCompleted (example_session None)
       = ([], Inl (TypeError ''Cannot read properties of undefined (reading 'type')''))
   \<and> webhooks_handler (example_env (Checkout_session_completed (example_session None)))
        example_store signed_request
       = (example_store, (500, Json [(''error'', S ''Webhook processing failed'')]))"
proof -
  have none: "session_metadata (example_session None) = None"
    by (simp add: example_session_def)
  have thrown: "handleCheckoutCompleted (example_session None)
       = ([], Inl (TypeError ''Cannot read properties of undefined (reading 'type')''))"
    by (simp add: handleCheckoutCompleted_def none)
  from checkout_without_metadata [OF signed_request_simps(1) signed_request_event none, of example_store]
    none thrown
  show ?thesis by simp
qed

lemma deleted_effect:
  assumes "http_method req = ''POST''"
    and "constructEvent env (request_body req) (stripe_signature req) (STRIPE_WEBHOOK_SECRET env)
           = Inr (Customer_subscription_deleted sub)"
  shows "webhooks_handler env s req =
     (s(creator_subscriptions :=
          update_rows [(''status'', S ''canceled''), (''updated_at'', ISO (now env))]
            (''stripe_subscription_id'', S (subscription_id sub)) (s creator_subscriptions),
        customer_subscriptions :=
          update_rows [(''status'', S ''canceled''), (''updated_at'', ISO (now env))]
            (''stripe_subscription_id'', S (subscription_id sub)) (s customer_subscriptions)),
      (200, Json [(''received'', B True)]))"
  using assms by (simp add: webhooks_handler_def handleSubscriptionDeleted_def run_ops_def)

text \<open>
  C8. Delivering the same \<^verbatim>\<open>customer.subscription.deleted\<close> event twice (the second
  delivery at any later clock reading): both deliveries are answered 200; after each
  of them every row of the creator-subscription and of the customer-subscription table
  that matches the subscription id has status \<^verbatim>\<open>canceled\<close>; and the second delivery
  changes the status of no row.
\<close>

theorem subscription_deleted_twice:
  assumes post: "http_method req = ''POST''"
    and ev: "constructEvent env (request_body req) (stripe_signature req) (STRIPE_WEBHOOK_SECRET env)
           = Inr (Customer_subscription_deleted sub)"
    and first: "webhooks_handler env s req = (s1, res1)"
    and second: "webhooks_handler (env\<lparr>now := later\<rparr>) s1 req = (s2, res2)"
    and t: "t = creator_subscriptions \<or> t = customer_subscriptions"
  shows "res1 = (200, Json [(''received'', B True)])
       \<and> res2 = (200, Json [(''received'', B True)])
       \<and> (\<forall>r \<in> set (s1 t). matches (''stripe_subscription_id'', S (subscription_id sub)) r
              \<longrightarrow> status_of r = Some (S ''canceled''))
       \<and> (\<forall>r \<in> set (s2 t). matches (''stripe_subscription_id'', S (subscription_id sub)) r
              \<longrightarrow> status_of r = Some (S ''canceled''))
       \<and> map status_of (s2 t) = map status_of (s1 t)"
proof -
  let ?f = "(''stripe_subscription_id'', S (subscription_id sub))"
  let ?p = "\<lambda>n. [(''status'', S ''canceled''), (''updated_at'', ISO n)]"
  have ev': "constructEvent (env\<lparr>now := later\<rparr>) (request_body req) (stripe_signature req)
      (STRIPE_WEBHOOK_SECRET (env\<lparr>now := later\<rparr>)) = Inr (Customer_subscription_deleted sub)"
    using ev by simp
  from first deleted_effect [OF post ev, of s]
  have s1: "s1 = s(creator_subscriptions := update_rows (?p (now env)) ?f (s creator_subscriptions),
                   customer_subscriptions := update_rows (?p (now env)) ?f (s customer_subscriptions))"
    and res1: "res1 = (200, Json [(''received'', B True)])"
    by simp_all
  from second deleted_effect [OF post ev', of s1]
  have s2: "s2 = s1(creator_subscriptions := update_rows (?p later) ?f (s1 creator_subscriptions),
                    customer_subscriptions := update_rows (?p later) ?f (s1 customer_subscriptions))"
    and res2: "res2 = (200, Json [(''received'', B True)])"
    by simp_all
  have s1t: "s1 t = update_rows (?p (now env)) ?f (s t)"
    using t s1 by auto
  have s2t: "s2 t = update_rows (?p later) ?f (s1 t)"
    using t s2 by auto
  have c1: "\<forall>r \<in> set (s1 t). matches ?f r \<longrightarrow> status_of r = Some (S ''canceled'')"
    unfolding s1t by (blast intro: update_rows_status)
  have c2: "\<forall>r \<in> set (s2 t). matches ?f r \<longrightarrow> status_of r = Some (S ''canceled'')"
    unfolding s2t by (blast intro: update_rows_status)
  have same: "map status_of (s2 t) = map status_of (s1 t)"
    unfolding s2t s1t by (rule update_rows_status_again)
  from res1 res2 c1 c2 same show ?thesis by blast
qed

lemmas example_eval =
  webhooks_handler_def example_env_simps signed_request_simps example_constructEvent_def
  run_ops_def example_subscription_def example_session_def example_store_def
  update_rows_def upsert_rows_def key_of_def matches_def patch_row_def status_of_def

theorem subscription_deleted_twice_witness:
  "http_method signed_request = ''POST''
   \<and> snd (webhooks_handler
        ((example_env (Customer_subscription_deleted (example_subscription ''canceled'' None)))\<lparr>now := 1700000060000\<rparr>)
        (fst (webhooks_handler
           (example_env (Customer_subscription_deleted (example_subscription ''canceled'' None)))
           example_store signed_request))
        signed_request) = (200, Json [(''received'', B True)])
   \<and> map status_of
       (fst (webhooks_handler
          ((example_env (Customer_subscription_deleted (example_subscription ''canceled'' None)))\<lparr>now := 1700000060000\<rparr>)
          (fst (webhooks_handler
             (example_env (Customer_subscription_deleted (example_subscription ''canceled'' None)))
             example_store signed_request))
          signed_request) customer_subscriptions)
     = [Some (S ''active''), Some (S ''canceled'')]"
proof -
  let ?sub = "example_subscription ''canceled'' None"
  let ?env = "example_env (Customer_subscription_deleted ?sub)"
  let ?first = "webhooks_handler ?env example_store signed_request"
  let ?second = "webhooks_handler (?env\<lparr>now := 1700000060000\<rparr>) (fst ?first) signed_request"
  have first: "?first = (fst ?first, snd ?first)"
    and second: "?second = (fst ?second, snd ?second)"
    by simp_all
  have t: "customer_subscriptions = creator_subscriptions \<or> customer_subscriptions = customer_subscriptions"
    by simp
  have s1: "map status_of (fst ?first customer_subscriptions) = [Some (S ''active''), Some (S ''canceled'')]"
    by (simp add: example_eval handleSubscriptionDeleted_def)
  from subscription_deleted_twice [OF signed_request_simps(1) signed_request_event first second t] s1
  show ?thesis by (simp add: signed_request_simps)
qed

text \<open>When a period field does not render as a date, \<^verbatim>\<open>toISOString()\<close> throws before any
  call to the store: the answer is 500 and no row is changed.\<close>

lemma subscription_created_invalid_period:
  assumes "http_method req = ''POST''"
    and "constructEvent env (request_body req) (stripe_signature req) (STRIPE_WEBHOOK_SECRET env)
           = Inr (Customer_subscription_created sub)"
    and "new_Date (current_period_start sub) = None \<or> new_Date (current_period_end sub) = None"
  shows "webhooks_handler env s req = (s, (500, Json [(''error'', S ''Webhook processing failed'')]))"
  using assms
  by (auto simp: webhooks_handler_def handleSubscriptionCreated_def created_fields_def
      toISOString_def run_ops_Nil split: option.splits)

text \<open>
  C1, as the code has it. A \<^verbatim>\<open>customer.subscription.created\<close> event (whose period fields
  render as dates) updates status, period start and period end of the rows matching
  the subscription id in exactly one table: the creator-subscription table when the
  metadata type tag is \<^verbatim>\<open>creator_subscription\<close>, and otherwise (no metadata, no type
  tag, or any other tag) the customer-subscription table. Every other table is left as
  it was, and the answer is 200.
\<close>

theorem subscription_created_one_table:
  assumes "http_method req = ''POST''"
    and "constructEvent env (request_body req) (stripe_signature req) (STRIPE_WEBHOOK_SECRET env)
           = Inr (Customer_subscription_created sub)"
    and "new_Date (current_period_start sub) = Some period_start"
    and "new_Date (current_period_end sub) = Some period_end"
  shows "webhooks_handler env s req =
     (s((if creator_tagged sub then creator_subscriptions else customer_subscriptions) :=
          update_rows
            [(''status'', S (subscription_status sub)),
             (''current_period_start'', ISO period_start),
             (''current_period_end'', ISO period_end)]
            (''stripe_subscription_id'', S (subscription_id sub))
            (s (if creator_tagged sub then creator_subscriptions else customer_subscriptions))),
      (200, Json [(''received'', B True)]))"
  using assms
  by (simp add: webhooks_handler_def handleSubscriptionCreated_def created_fields_def
      toISOString_def run_ops_def)

theorem subscription_created_one_table_witness:
  "new_Date (current_period_start (example_subscription ''trialing'' (Some [(''type'', ''creator_subscription'')])))
     = Some 1700000000000
   \<and> map status_of
        (fst (webhooks_handler
           (example_env (Customer_subscription_created
              (example_subscription ''trialing'' (Some [(''type'', ''creator_subscription'')]))))
           example_store signed_request) creator_subscriptions)
       = [Some (S ''trialing'')]
   \<and> fst (webhooks_handler
           (example_env (Customer_subscription_created
              (example_subscription ''trialing'' (Some [(''type'', ''creator_subscription'')]))))
           example_store signed_request) customer_subscriptions
       = example_store customer_subscriptions"
proof -
  let ?sub = "example_subscription ''trialing'' (Some [(''type'', ''creator_subscription'')])"
  have a: "new_Date (current_period_start ?sub) = Some 1700000000000"
    and b: "new_Date (current_period_end ?sub) = Some 1702592000000"
    by (simp_all add: example_subscription_def new_Date_def)
  have tagged: "creator_tagged ?sub"
    by (simp add: creator_tagged_def example_subscription_def)
  from subscription_created_one_table [OF signed_request_simps(1) signed_request_event a b, of example_store]
    a tagged
  show ?thesis
    by (simp add: example_subscription_def example_store_def update_rows_def matches_def
        patch_row_def status_of_def)
qed

text \<open>
  With no type tag, the event \<^verbatim>\<open>sub_1\<close> reaches the customer-subscription table only:
  the one call issued is an update of that table, and the creator-subscription row with
  the same subscription id keeps its status.
\<close>

theorem subscription_created_untagged_counterexample:
  "fst (handleSubscriptionCreated (example_subscription ''trialing'' None))
     = [Update customer_subscriptions
          [(''status'', S ''trialing''),
           (''current_period_start'', ISO 1700000000000),
           (''current_period_end'', ISO 1702592000000)]
          (''stripe_subscription_id'', S ''sub_1'')]
   \<and> matches (''stripe_subscription_id'', S ''sub_1'') (hd (example_store creator_subscriptions))
   \<and> fst (webhooks_handler
           (example_env (Customer_subscription_created (example_subscription ''trialing'' None)))
           example_store signed_request) creator_subscriptions
       = example_store creator_subscriptions
   \<and> map status_of (example_store creator_subscriptions) = [Some (S ''active'')]
   \<and> map status_of
        (fst (webhooks_handler
           (example_env (Customer_subscription_created (example_subscription ''trialing'' None)))
           example_store signed_request) customer_subscriptions)
       = [Some (S ''active''), Some (S ''trialing'')]"
  by (simp add: example_eval handleSubscriptionCreated_def created_fields_def creator_tagged_def
      toISOString_def new_Date_def)

text \<open>The statuses written by each kind of event.\<close>

lemma map_of_columns_Cons:
  "map_of (columns ((k', x) # kvs)) k =
     (case x of None \<Rightarrow> map_of (columns kvs) k
      | Some v \<Rightarrow> if k = k' then Some v else map_of (columns kvs) k)"
  by (cases x) auto

lemma status_written_checkout:
  "op \<in> set (fst (handleCheckoutCompleted session)) \<Longrightarrow> status_written op = Some (S ''active'')"
  by (auto simp: handleCheckoutCompleted_def map_of_columns_Cons simp del: columns.simps
      split: option.splits if_splits)

lemma status_written_created:
  "op \<in> set (fst (handleSubscriptionCreated sub)) \<Longrightarrow>
     status_written op = Some (S (subscription_status sub))"
  by (auto simp: handleSubscriptionCreated_def created_fields_def split: sum.splits if_splits)

lemma status_written_updated:
  "op \<in> set (fst (handleSubscriptionUpdated clock sub)) \<Longrightarrow>
     status_written op = Some (S (subscription_status sub))"
  by (auto simp: handleSubscriptionUpdated_def updated_fields_def split: sum.splits)

lemma status_written_deleted:
  "op \<in> set (fst (handleSubscriptionDeleted clock sub)) \<Longrightarrow> status_written op = Some (S ''canceled'')"
  by (auto simp: handleSubscriptionDeleted_def)

lemma status_written_failed:
  "op \<in> set (fst (handlePaymentFailed clock invoice)) \<Longrightarrow> status_written op = Some (S ''past_due'')"
  by (auto simp: handlePaymentFailed_def)

lemma status_written_succeeded:
  "op \<in> set (fst (handlePaymentSucceeded clock invoice)) \<Longrightarrow> status_written op = Some (S ''active'')"
  by (auto simp: handlePaymentSucceeded_def)

lemma status_written_account:
  "op \<in> set (fst (handleConnectAccountUpdated clock account)) \<Longrightarrow> status_written op = None"
  by (auto simp: handleConnectAccountUpdated_def)

text \<open>
  C2, as the code has it. Every status value that the calls issued for an event write
  is \<^verbatim>\<open>active\<close>, \<^verbatim>\<open>past_due\<close> or \<^verbatim>\<open>canceled\<close>, or it is the status the event carries:
  \<^verbatim>\<open>customer.subscription.created\<close> and \<^verbatim>\<open>customer.subscription.updated\<close> write the
  carried status through as it is, whatever its value.
\<close>

theorem status_written_values:
  assumes "op \<in> set (fst (dispatch clock ev))"
    and "status_written op = Some v"
  shows "v \<in> S ` ({''active'', ''past_due'', ''canceled''} \<union> set_option (carried_status ev))"
proof (cases ev)
  case (Checkout_session_completed x)
  with assms status_written_checkout [of op x] show ?thesis by auto
next
  case (Customer_subscription_created x)
  with assms status_written_created [of op x] show ?thesis by auto
next
  case (Customer_subscription_updated x)
  with assms status_written_updated [of op clock x] show ?thesis by auto
next
  case (Customer_subscription_deleted x)
  with assms status_written_deleted [of op clock x] show ?thesis by auto
next
  case (Invoice_payment_failed x)
  with assms status_written_failed [of op clock x] show ?thesis by auto
next
  case (Invoice_payment_succeeded x)
  with assms status_written_succeeded [of op clock x] show ?thesis by auto
next
  case (Account_updated x)
  with assms status_written_account [of op clock x] show ?thesis by auto
next
  case (Unhandled x)
  with assms show ?thesis by simp
qed

theorem status_written_values_witness:
  "Update customer_subscriptions [(''status'', S ''canceled''), (''updated_at'', ISO 7)]
       (''stripe_subscription_id'', S ''sub_1'')
     \<in> set (fst (dispatch 7 (Customer_subscription_deleted (example_subscription ''canceled'' None))))
   \<and> status_written
        (Update customer_subscriptions [(''status'', S ''canceled''), (''updated_at'', ISO 7)]
           (''stripe_subscription_id'', S ''sub_1'')) = Some (S ''canceled'')
   \<and> S ''canceled'' \<in> S ` ({''active'', ''past_due'', ''canceled''}
        \<union> set_option (carried_status (Customer_subscription_deleted (example_subscription ''canceled'' None))))"
proof -
  let ?op = "Update customer_subscriptions [(''status'', S ''canceled''), (''updated_at'', ISO 7)]
       (''stripe_subscription_id'', S ''sub_1'')"
  let ?ev = "Customer_subscription_deleted (example_subscription ''canceled'' None)"
  have a: "?op \<in> set (fst (dispatch 7 ?ev))"
    by (simp add: handleSubscriptionDeleted_def example_subscription_def)
  have b: "status_written ?op = Some (S ''canceled'')"
    by simp
  from status_written_values [OF a b] a b show ?thesis by blast
qed

text \<open>
  A \<^verbatim>\<open>customer.subscription.created\<close> event that carries the gateway status
  \<^verbatim>\<open>incomplete\<close> writes \<^verbatim>\<open>incomplete\<close> to the matching row.
\<close>

theorem status_written_incomplete_counterexample:
  "status_written (hd (fst (dispatch 7
      (Customer_subscription_created (example_subscription ''incomplete'' None)))))
     = Some (S ''incomplete'')
   \<and> S ''incomplete'' \<notin> {S ''active'', S ''past_due'', S ''canceled''}
   \<and> map status_of
        (fst (webhooks_handler
           (example_env (Customer_subscription_created (example_subscription ''incomplete'' None)))
           example_store signed_request) customer_subscriptions)
       = [Some (S ''active''), Some (S ''incomplete'')]"
  by (simp add: example_eval handleSubscriptionCreated_def created_fields_def creator_tagged_def
      toISOString_def new_Date_def)

section \<open>Properties of the subscription dispatcher\<close>

lemma example_request_simps:
  "config_method (example_request act user) = ''POST''"
  "origin (example_request act user) = Some ''https://app.example''"
  "action (example_request act user) = act"
  "userId (example_request act user) = user"
  "email (example_request act user) = ''a@b.example''"
  "gptId (example_request act user) = ''g1''"
  "creatorId (example_request act user) = ''c1''"
  "monthlyPrice (example_request act user) = 2999 / 100"
  by (simp_all add: example_request_def)

lemma example_gateway_simps:
  "customers_list example_gateway e = Inr []"
  "customers_create example_gateway e md acct = Inr ''cus_new''"
  "checkout_sessions_create example_gateway params acct
     = Inr (''cs_new'', ''https://checkout.example/cs_new'')"
  by (simp_all add: example_gateway_def)

lemma creator_one_active_row:
  assumes "config_method req = ''POST''"
    and "action req = ''create_creator_subscription''"
    and "active_rows s (userId req) = [r]"
  shows "stripe_config_handler stripe pk s req =
     (s, [], (400, Json [(''error'', S ''Already has active creator subscription'')]))"
  using assms
  by (simp add: stripe_config_handler_def createCreatorSubscription_def active_rows_def run_ops_Nil)



text \<open>
  C6, where it holds: a user with exactly one active creator-subscription row is
  answered 400 \<^verbatim>\<open>Already has active creator subscription\<close>, with no gateway call and no
  change to the store (lemma \<open>creator_one_active_row\<close>). With two active rows for the
  same user the check lets the request through: the gateway is asked for the customer
  and for a new checkout session, and the answer is 200.
\<close>

theorem creator_two_active_rows:
  "length (active_rows duplicate_store ''u1'') = 2
   \<and> stripe_config_handler example_gateway (\<lambda>t. [''id'']) duplicate_store
        (example_request ''create_creator_subscription'' ''u1'')
     = (duplicate_store,
        [Customers_list ''a@b.example'' 1,
         Customers_create ''a@b.example'' [(''userId'', ''u1''), (''type'', ''creator'')] None,
         Checkout_sessions_create
           (creator_checkout_params (example_request ''create_creator_subscription'' ''u1'') ''cus_new'')
           None],
        (200, Json [(''sessionId'', S ''cs_new''), (''customerId'', S ''cus_new''),
                    (''url'', S ''https://checkout.example/cs_new'')]))"
  by (simp add: stripe_config_handler_def createCreatorSubscription_def find_or_create_customer_def
      example_request_simps example_gateway_simps active_rows_def select_eq_def matches_def
      duplicate_store_def run_ops_Nil)



text \<open>Every checkout session that \<^verbatim>\<open>createCustomerSubscription\<close> requests carries the unit
  amount of line 230 and the fee percentage 30; the fee amount of line 217 is computed
  and not sent.\<close>

lemma customer_subscription_call:
  assumes "Checkout_sessions_create params acct \<in> set (fst (createCustomerSubscription stripe s req))"
  shows "unit_amount params = unit_amount_of (monthlyPrice req)
       \<and> application_fee_percent params = Some 30"
  using assms
  by (auto simp: createCustomerSubscription_def customer_checkout_params_def Let_def
      split: prod.splits option.splits sum.splits if_splits)

text \<open>
  C3, as the code has it. The amounts are computed in binary floating point. For a
  \<^verbatim>\<open>monthlyPrice\<close> of \<open>c\<close> whole cents (\<open>0 \<le> c \<le> 10^12\<close>), every checkout session
  requested carries the unit amount \<open>round(p * 100) = c\<close> and the fee percentage 30,
  not a fee amount; and the fee amount the handler computes equals \<open>round(p * 100 * 0.30)\<close>,
  rounded half up, whenever \<open>0.3 c\<close> is not a tie (\<open>3 c mod 10 \<noteq> 5\<close>).
\<close>

theorem customer_subscription_amounts:
  assumes "0 \<le> c" and "c \<le> 10 ^ 12"
    and "monthlyPrice req = of_int c / 100"
    and "Checkout_sessions_create params acct \<in> set (fst (createCustomerSubscription stripe s req))"
  shows "unit_amount params = Math_round (monthlyPrice req * 100)
       \<and> unit_amount params = c
       \<and> application_fee_percent params = Some 30
       \<and> (3 * c mod 10 \<noteq> 5 \<longrightarrow>
            applicationFeeAmount (monthlyPrice req) = Math_round (monthlyPrice req * 100 * (3 / 10)))"
proof -
  from customer_subscription_call [OF assms(4)]
  have sent: "unit_amount params = unit_amount_of (of_int c / 100)"
    and percent: "application_fee_percent params = Some 30"
    by (simp_all add: assms(3))
  from sent have unit: "unit_amount params = c"
    by (simp only: unit_amount_cents [OF assms(1,2)])
  have fee: "applicationFeeAmount (of_int c / 100) = Math_round (of_int c / 100 * 100 * (3 / 10))"
    if "3 * c mod 10 \<noteq> 5"
    by (simp only: fee_cents [OF assms(1,2) that] Math_round_fee)
  show ?thesis
    unfolding assms(3) Math_round_cents using unit percent fee
    by blast
qed

theorem customer_subscription_amounts_witness:
  "monthlyPrice (example_request ''create_customer_subscription'' ''u2'') = of_int 2999 / 100
   \<and> fst (createCustomerSubscription example_gateway example_marketplace
             (example_request ''create_customer_subscription'' ''u2''))
       = [Customers_create ''a@b.example'' [(''userId'', ''u2''), (''gptId'', ''g1''), (''creatorId'', ''c1'')]
            (Some ''acct_1''),
          Checkout_sessions_create
            (customer_checkout_params (example_request ''create_customer_subscription'' ''u2'') ''cus_new''
               (Obj [(''name'', S ''Tutor''), (''description'', S ''A patient tutor'')]))
            (Some ''acct_1'')]
   \<and> unit_amount
        (customer_checkout_params (example_request ''create_customer_subscription'' ''u2'') ''cus_new''
           (Obj [(''name'', S ''Tutor''), (''description'', S ''A patient tutor'')])) = 2999
   \<and> applicationFeeAmount (2999 / 100) = 900"
proof -
  let ?req = "example_request ''create_customer_subscription'' ''u2''"
  let ?params = "customer_checkout_params ?req ''cus_new''
      (Obj [(''name'', S ''Tutor''), (''description'', S ''A patient tutor'')])"
  have price: "monthlyPrice ?req = of_int 2999 / 100"
    by (simp add: example_request_simps)
  have calls: "fst (createCustomerSubscription example_gateway example_marketplace ?req)
       = [Customers_create ''a@b.example'' [(''userId'', ''u2''), (''gptId'', ''g1''), (''creatorId'', ''c1'')]
            (Some ''acct_1''),
          Checkout_sessions_create ?params (Some ''acct_1'')]"
    by (simp add: createCustomerSubscription_def example_request_simps example_gateway_simps
        example_marketplace_def select_eq_def matches_def Let_def)
  then have call: "Checkout_sessions_create ?params (Some ''acct_1'')
      \<in> set (fst (createCustomerSubscription example_gateway example_marketplace ?req))"
    by simp
  have range: "(0::int) \<le> 2999" "(2999::int) \<le> 10 ^ 12"
    by simp_all
  have exact: "Math_round (of_int 2999 / 100 * 100 * (3 / 10)) = 900"
    by (simp only: Math_round_fee)
  have fee: "applicationFeeAmount (2999 / 100) = 900"
    using customer_subscription_amounts [OF range price call] exact
    by (simp add: example_request_simps)
  from customer_subscription_amounts [OF range price call] price calls fee
  show ?thesis
    by simp
qed

text \<open>
  A price of \<^verbatim>\<open>9.95\<close>: \<open>9.95 * 100 * 0.30\<close> is the tie \<open>298.5\<close>, which rounds half up to
  \<open>299\<close>; the handler computes \<open>298\<close>, as the product in floating point falls just
  below the tie.
\<close>

theorem fee_tie_counterexample:
  "applicationFeeAmount (995 / 100) = 298 \<and> Math_round (995 / 100 * 100 * (3 / 10)) = 299"
proof
  show "applicationFeeAmount (995 / 100) = 298"
    by code_simp
  show "Math_round (995 / 100 * 100 * (3 / 10)) = 299"
    by (simp add: Math_round_def)
qed

section \<open>Properties of the completion proxy\<close>

lemma example_chat_request_simps:
  "chat_method (example_chat_request ms ctx) = ''POST''"
  "chat_origin (example_chat_request ms ctx) = None"
  "messages (example_chat_request ms ctx) = ms"
  "instructions (example_chat_request ms ctx) = None"
  "context_text (example_chat_request ms ctx) = ctx"
  "model (example_chat_request ms ctx) = None"
  by (simp_all add: example_chat_request_def)

lemma example_chat_env_simps:
  "OPENROUTER_API_KEY example_chat_env = Some ''sk-or-1''"
  "fetch example_chat_env = example_fetch"
  by (simp_all add: example_chat_env_def)

text \<open>The messages that both handlers turn away: missing, \<^verbatim>\<open>null\<close>, or not an array.\<close>

lemma not_an_array:
  "(falsy m \<or> \<not> isArray m) = (\<forall>ms. m \<noteq> Array ms)"
  by (cases m) auto

lemma invalid_messages:
  assumes "\<forall>m ms. field \<noteq> Array (m # ms)"
  shows "falsy field \<or> \<not> isArray field \<or> length (elements field) = 0"
proof (cases field)
  case (Array xs)
  with assms show ?thesis by (cases xs) auto
qed auto

text \<open>\<^verbatim>\<open>api/chat.js\<close> sends nothing to the completion API unless the messages are a
  non-empty array, whatever the method and the configuration.\<close>

lemma chat_handler_no_call:
  assumes "\<forall>m ms. messages req \<noteq> Array (m # ms)"
  shows "fst (chat_handler env req) = []"
proof -
  have "falsy (messages req) \<or> \<not> isArray (messages req) \<or> length (elements (messages req)) = 0"
    using assms by (rule invalid_messages)
  then show ?thesis
    by (simp add: chat_handler_def split: option.splits)
qed

text \<open>On a POST with the key configured, it answers such a request with 400.\<close>

lemma chat_handler_invalid_messages:
  assumes "chat_method req = ''POST''"
    and "OPENROUTER_API_KEY env = Some apiKey" and "apiKey \<noteq> []"
    and "\<forall>m ms. messages req \<noteq> Array (m # ms)"
  shows "chat_handler env req =
     ([], 400, Failure ''Messages array is required and cannot be empty'' None None)"
proof -
  have "falsy (messages req) \<or> \<not> isArray (messages req) \<or> length (elements (messages req)) = 0"
    using assms(4) by (rule invalid_messages)
  with assms(1-3) show ?thesis
    by (simp add: chat_handler_def)
qed

text \<open>
  C4, on the second handler. \<^verbatim>\<open>src/unnamed/part_001\<close> turns away messages that are
  missing or not an array, but not an empty array: for \<^verbatim>\<open>messages: []\<close> it sends the
  completion API a request whose only turn is the system turn, and answers with what
  comes back, for any completion API.
\<close>

theorem part_001_empty_messages:
  "fst (chat_handler_part_001 key fetch_api (example_chat_request (Array []) None))
     = [\<lparr>authorization = ''Bearer '' @ key, http_referer = None, x_title = None,
         request_model = utf16 ''openai/gpt-4o-mini'',
         request_messages = [\<lparr>role = utf16 ''system'', content = utf16 ''You are a helpful assistant.''\<rparr>],
         max_tokens = 1000, temperature = 7 / 10, stream = None\<rparr>]
   \<and> fst (snd (chat_handler_part_001 key fetch_api (example_chat_request (Array []) None))) \<noteq> 400
   \<and> chat_handler example_chat_env (example_chat_request (Array []) None)
       = ([], 400, Failure ''Messages array is required and cannot be empty'' None None)"
  by (simp add: chat_handler_part_001_def chat_handler_def example_chat_request_simps
      example_chat_env_simps systemContent_part_001_def Let_def
      split: fetched.splits option.splits list.splits)

theorem part_001_empty_messages_witness:
  "map request_messages
     (fst (chat_handler_part_001 ''sk-or-1'' example_fetch (example_chat_request (Array []) None)))
     = [[\<lparr>role = utf16 ''system'', content = utf16 ''You are a helpful assistant.''\<rparr>]]
   \<and> fst (snd (chat_handler_part_001 ''sk-or-1'' example_fetch (example_chat_request (Array []) None)))
       = 200"
proof -
  have answer: "fst (snd (chat_handler_part_001 ''sk-or-1'' example_fetch
      (example_chat_request (Array []) None))) = 200"
    by (simp add: chat_handler_part_001_def example_chat_request_simps example_fetch_def Let_def)
  from part_001_empty_messages [of "''sk-or-1''" example_fetch] answer
  show ?thesis by simp
qed

lemma part_001_not_an_array:
  assumes "chat_method req = ''POST''" and "\<forall>ms. messages req \<noteq> Array ms"
  shows "chat_handler_part_001 key fetch_api req = ([], 400, Failure ''Messages array is required'' None None)"
  using assms not_an_array [of "messages req"]
  by (simp add: chat_handler_part_001_def)

text \<open>In \<^verbatim>\<open>api/chat.js\<close>, the request for a non-empty array of messages: the system turn
  comes first, then the caller's turns as they were given.\<close>

lemma chat_handler_messages:
  assumes "chat_method req = ''POST''"
    and "OPENROUTER_API_KEY env = Some apiKey" and "apiKey \<noteq> []"
    and "messages req = Array (m # ms)"
  shows "\<exists>call. fst (chat_handler env req) = [call]
       \<and> request_messages call =
            \<lparr>role = utf16 ''system'', content = systemContent (instructions req) (context_text req)\<rparr>
              # m # ms"
  using assms
  by (simp add: chat_handler_def Let_def split: fetched.splits option.splits list.splits)

text \<open>The context is appended to the instructions exactly when it is not blank.\<close>

lemma dropWhile_all: "(\<forall>x \<in> set (dropWhile P xs). P x) \<longleftrightarrow> (\<forall>x \<in> set xs. P x)"
  by (induction xs) auto

lemma trim_Nil_iff: "trim c = [] \<longleftrightarrow> (\<forall>x \<in> set c. white_space x)"
  by (simp add: trim_def dropWhile_all)

lemma systemContent_blank:
  assumes "\<forall>x \<in> set c. white_space x"
  shows "systemContent instr (Some c) = systemContent instr None"
  using assms by (simp add: systemContent_def trim_Nil_iff)

lemma systemContent_not_blank:
  assumes "x \<in> set c" and "\<not> white_space x"
  shows "systemContent instr (Some c) =
     systemContent instr None
       @ [0x0A, 0x0A] @ utf16 ''Relevant information from uploaded documents:'' @ [0x0A] @ c"
proof -
  from assms have "trim c \<noteq> []" and "c \<noteq> []"
    by (auto simp: trim_Nil_iff)
  then show ?thesis
    by (simp add: systemContent_def)
qed

text \<open>
  C5, on the second handler. \<^verbatim>\<open>src/unnamed/part_001\<close> tests \<^verbatim>\<open>if (context)\<close> without
  trimming: a context of one space is blank, and is appended all the same, where
  \<^verbatim>\<open>api/chat.js\<close> leaves it out.
\<close>

theorem part_001_blank_context:
  "trim (utf16 '' '') = []
   \<and> map request_messages
        (fst (chat_handler_part_001 key fetch_api
                (example_chat_request (Array [example_turn]) (Some (utf16 '' '')))))
     = [[\<lparr>role = utf16 ''system'',
          content = utf16 ''You are a helpful assistant.'' @ [0x0A, 0x0A]
                      @ utf16 ''Relevant information from uploaded documents:'' @ [0x0A] @ utf16 '' ''\<rparr>,
         example_turn]]
   \<and> map request_messages
        (fst (chat_handler example_chat_env
                (example_chat_request (Array [example_turn]) (Some (utf16 '' '')))))
     = [[\<lparr>role = utf16 ''system'', content = utf16 ''You are a helpful AI assistant.''\<rparr>,
         example_turn]]"
proof -
  have blank: "trim (utf16 '' '') = []"
    by (simp add: trim_def utf16_def white_space_def)
  have space: "utf16 '' '' \<noteq> []"
    by (simp add: utf16_def)
  show ?thesis
    using blank space
    by (simp add: chat_handler_part_001_def chat_handler_def example_chat_request_simps
        example_chat_env_simps systemContent_part_001_def systemContent_def Let_def
        split: fetched.splits option.splits list.splits)
qed

theorem part_001_blank_context_witness:
  "map request_messages
     (fst (chat_handler_part_001 ''sk-or-1'' example_fetch
             (example_chat_request (Array [example_turn]) (Some (utf16 '' '')))))
     = [[\<lparr>role = utf16 ''system'',
          content = utf16 ''You are a helpful assistant.'' @ [0x0A, 0x0A]
                      @ utf16 ''Relevant information from uploaded documents:'' @ [0x0A] @ utf16 '' ''\<rparr>,
         example_turn]]"
  using part_001_blank_context [of "''sk-or-1''" example_fetch] by simp

end
